theory Spec2Isabelle
  imports
    Complex_Main
    "HOL-Library.Char_ord"
    "HOL-Library.List_Lexorder"
    "HOL-Library.Log_Nat"
begin

section \<open>Python values, SQLite values and exceptions\<close>

text \<open>
  The prediction engine works on JSON-like dictionaries. A Python value is \<open>None\<close>, a
  number, a string, a list or a dictionary with string keys (an association list, first
  binding wins). \<open>bool\<close>, \<open>int\<close> and \<open>float\<close> are one constructor, as in Python
  \<open>True == 1\<close> and \<open>1 == 1.0\<close>; numbers are exact reals, so \<open>nan\<close>, \<open>inf\<close> and the
  rounding of binary floating point are outside this part of the model (the betting
  simulation, whose documented outputs are decimal figures, is modelled with the rounding
  of binary64 in its own section).

  Source names starting with an underscore lose it (\<open>_predict_single_game\<close> is
  \<open>predict_single_game\<close>); the field \<open>value\<close> of a factor is \<open>val\<close>.
\<close>

datatype pyval =
    PNone
  | PNum real
  | PStr string
  | PList "pyval list"
  | PDict "(string \<times> pyval) list"

datatype error =
    KeyError | TypeError | AttributeError | ValueError | ZeroDivisionError | JSONDecodeError

text \<open>Sequencing of computations that may raise: the first exception wins.\<close>

definition ebind :: "error + 'a \<Rightarrow> ('a \<Rightarrow> error + 'b) \<Rightarrow> error + 'b" where
  "ebind m f = (case m of Inl e \<Rightarrow> Inl e | Inr x \<Rightarrow> f x)"

text \<open>\<open>try: body except Exception: handler\<close>; the handler itself may raise.\<close>

definition try_except :: "error + 'a \<Rightarrow> (error + 'a) \<Rightarrow> error + 'a" where
  "try_except body handler = (case body of Inl e \<Rightarrow> handler | Inr x \<Rightarrow> Inr x)"

text \<open>\<open>d[k]\<close>\<close>

fun py_getitem :: "pyval \<Rightarrow> string \<Rightarrow> error + pyval" where
  "py_getitem (PDict kvs) k = (case map_of kvs k of None \<Rightarrow> Inl KeyError | Some v \<Rightarrow> Inr v)"
| "py_getitem _ k = Inl TypeError"

text \<open>\<open>d.get(k, default)\<close>: only dictionaries have the method.\<close>

fun py_get :: "pyval \<Rightarrow> string \<Rightarrow> pyval \<Rightarrow> error + pyval" where
  "py_get (PDict kvs) k dflt = Inr (case map_of kvs k of None \<Rightarrow> dflt | Some v \<Rightarrow> v)"
| "py_get _ k dflt = Inl AttributeError"

text \<open>Truth value of a Python object.\<close>

fun py_truthy :: "pyval \<Rightarrow> bool" where
  "py_truthy PNone = False"
| "py_truthy (PNum r) = (if r = 0 then False else True)"
| "py_truthy (PStr s) = (if s = [] then False else True)"
| "py_truthy (PList xs) = (if xs = [] then False else True)"
| "py_truthy (PDict kvs) = (if kvs = [] then False else True)"

text \<open>\<open>a + b\<close>: numbers add, strings and lists concatenate, anything else is a TypeError.\<close>

fun py_add :: "pyval \<Rightarrow> pyval \<Rightarrow> error + pyval" where
  "py_add (PNum a) (PNum b) = Inr (PNum (a + b))"
| "py_add (PStr a) (PStr b) = Inr (PStr (a @ b))"
| "py_add (PList a) (PList b) = Inr (PList (a @ b))"
| "py_add _ _ = Inl TypeError"

text \<open>\<open>c * b\<close> for a float literal \<open>c\<close>: a sequence cannot be multiplied by a float.\<close>

fun py_float_mul :: "real \<Rightarrow> pyval \<Rightarrow> error + pyval" where
  "py_float_mul c (PNum b) = Inr (PNum (c * b))"
| "py_float_mul c _ = Inl TypeError"

text \<open>\<open>a / b\<close>\<close>

fun py_truediv :: "pyval \<Rightarrow> pyval \<Rightarrow> error + pyval" where
  "py_truediv (PNum a) (PNum b) = (if b = 0 then Inl ZeroDivisionError else Inr (PNum (a / b)))"
| "py_truediv _ _ = Inl TypeError"

text \<open>The number inside a value that arithmetic has already produced.\<close>

fun py_number :: "pyval \<Rightarrow> error + real" where
  "py_number (PNum r) = Inr r"
| "py_number _ = Inl TypeError"

text \<open>
  The format specifications \<open>:.1f\<close>, \<open>:+.1f\<close> and \<open>:.1%\<close> of an f-string accept numbers
  only: a string raises ValueError, any other object TypeError.
\<close>

fun py_format_f :: "pyval \<Rightarrow> error + real" where
  "py_format_f (PNum r) = Inr r"
| "py_format_f (PStr s) = Inl ValueError"
| "py_format_f _ = Inl TypeError"

text \<open>Rounding to the nearest integer, a tie going to the even one.\<close>

definition round_half_even :: "real \<Rightarrow> int" where
  "round_half_even y =
     (let f = \<lfloor>y\<rfloor>; d = y - of_int f
      in if d < 1 / 2 then f
         else if 1 / 2 < d then f + 1
         else if even f then f else f + 1)"

text \<open>\<open>round(x, 1)\<close>: the nearest multiple of one tenth.\<close>

definition py_round1 :: "real \<Rightarrow> real" where
  "py_round1 x = of_int (round_half_even (x * 10)) / 10"

text \<open>
  A field of a database row holds what the SQLite driver hands to Python: \<open>None\<close>, a
  number or a string (BLOBs are not modelled).
\<close>

datatype sqlval = SNull | SNum real | SText string

fun py_of_sql :: "sqlval \<Rightarrow> pyval" where
  "py_of_sql SNull = PNone"
| "py_of_sql (SNum r) = PNum r"
| "py_of_sql (SText s) = PStr s"

text \<open>\<open>a > b\<close>: numbers by value, strings lexicographically, mixed operands raise.\<close>

fun sql_gt :: "sqlval \<Rightarrow> sqlval \<Rightarrow> error + bool" where
  "sql_gt (SNum a) (SNum b) = Inr (b < a)"
| "sql_gt (SText a) (SText b) = Inr (b < a)"
| "sql_gt _ _ = Inl TypeError"

text \<open>\<open>a - b\<close>\<close>

fun sql_sub :: "sqlval \<Rightarrow> sqlval \<Rightarrow> error + real" where
  "sql_sub (SNum a) (SNum b) = Inr (a - b)"
| "sql_sub _ _ = Inl TypeError"

text \<open>
  A TEXT column that stores JSON: empty or NULL (\<open>NoText\<close>, falsy in Python), a text on
  which \<open>json.loads\<close> raises, or a text that \<open>json.loads\<close> turns into the given value.
\<close>

datatype stored_json = NoText | Malformed | Json pyval

section \<open>The games table\<close>

text \<open>
  The columns of table \<open>games\<close> that the services read. The database is the list of its
  rows in the order of \<open>ORDER BY game_date DESC\<close>.
\<close>

record row =
  espn_id :: sqlval
  home_team_id :: sqlval
  home_team_name :: sqlval
  away_team_id :: sqlval
  away_team_name :: sqlval
  status :: sqlval
  home_score :: sqlval
  away_score :: sqlval
  weather_data :: stored_json
  raw_data :: stored_json

type_synonym database = "row list"

text \<open>
  \<open>SportsDatabase.get_games\<close>: the first \<open>limit\<close> rows; the JSON columns of every
  returned row are parsed, and one malformed text makes the whole call raise.
\<close>

definition get_games :: "database \<Rightarrow> nat \<Rightarrow> error + row list" where
  "get_games db limit =
     (let rows = take limit db
      in if list_ex (\<lambda>r. weather_data r = Malformed \<or> raw_data r = Malformed) rows
         then Inl JSONDecodeError else Inr rows)"

section \<open>Prediction engine\<close>

text \<open>
  An f-string explanation is kept as its template with the formatted arguments; a literal
  explanation is \<open>Text\<close>.
\<close>

datatype explanation =
    Text string
  | TeamStrengthText real pyval pyval real pyval pyval
  | HeadToHeadText nat real
  | WeatherText real pyval

record PredictionFactor =
  name :: string
  val :: real
  weight :: real
  confidence :: real
  explanation :: explanation

record GamePrediction =
  game_id :: pyval
  home_team :: pyval
  away_team :: pyval
  predicted_winner :: pyval
  p_confidence :: real
  spread_prediction :: real
  total_prediction :: "real option"
  factors :: "PredictionFactor list"
  algorithm_version :: string
  created_at :: nat

type_synonym weights = "(string \<times> real) list"

record engine =
  factor_weights :: weights
  version :: string

text \<open>\<open>self.factor_weights[k]\<close>\<close>

definition weight_of :: "engine \<Rightarrow> string \<Rightarrow> error + real" where
  "weight_of eng k = (case map_of (factor_weights eng) k of None \<Rightarrow> Inl KeyError | Some w \<Rightarrow> Inr w)"

definition default_weights :: weights where
  "default_weights =
     [(''team_strength'', 35 / 100), (''head_to_head'', 20 / 100), (''home_advantage'', 15 / 100),
      (''rest_advantage'', 10 / 100), (''weather_impact'', 10 / 100), (''motivation'', 5 / 100),
      (''injuries'', 5 / 100)]"

text \<open>\<open>AdvancedPredictionEngine()\<close>\<close>

definition AdvancedPredictionEngine :: engine where
  "AdvancedPredictionEngine = \<lparr>factor_weights = default_weights, version = ''1.0''\<rparr>"

definition zero_record :: pyval where
  "zero_record = PDict [(''wins'', PNum 0), (''losses'', PNum 0), (''ties'', PNum 0)]"

text \<open>\<open>r['wins'] + r['losses'] + r['ties']\<close>\<close>

definition games_played :: "pyval \<Rightarrow> error + pyval" where
  "games_played r =
     ebind (py_getitem r ''wins'') (\<lambda>w.
     ebind (py_getitem r ''losses'') (\<lambda>l.
     ebind (py_add w l) (\<lambda>wl.
     ebind (py_getitem r ''ties'') (\<lambda>t.
     py_add wl t))))"

text \<open>\<open>(r['wins'] + 0.5 * r['ties']) / n\<close>\<close>

definition win_pct :: "pyval \<Rightarrow> pyval \<Rightarrow> error + real" where
  "win_pct r n =
     ebind (py_getitem r ''wins'') (\<lambda>w.
     ebind (py_getitem r ''ties'') (\<lambda>t.
     ebind (py_float_mul (1 / 2) t) (\<lambda>ht.
     ebind (py_add w ht) (\<lambda>s.
     ebind (py_truediv s n) py_number))))"

text \<open>The body of the \<open>try\<close> block of \<open>_calculate_team_strength_factor\<close>.\<close>

definition team_strength_body :: "engine \<Rightarrow> pyval \<Rightarrow> pyval \<Rightarrow> error + PredictionFactor" where
  "team_strength_body eng home away =
     ebind (py_get home ''record'' zero_record) (\<lambda>home_record.
     ebind (py_get away ''record'' zero_record) (\<lambda>away_record.
     ebind (games_played home_record) (\<lambda>home_games.
     ebind (games_played away_record) (\<lambda>away_games.
       if home_games = PNum 0 \<or> away_games = PNum 0 then
         ebind (weight_of eng ''team_strength'') (\<lambda>w.
           Inr \<lparr>name = ''Team Strength'', val = 0, weight = w, confidence = 1 / 10,
                explanation = Text ''Insufficient season data''\<rparr>)
       else
         ebind (win_pct home_record home_games) (\<lambda>home_win_pct.
         ebind (win_pct away_record away_games) (\<lambda>away_win_pct.
         ebind (weight_of eng ''team_strength'') (\<lambda>w.
         ebind (py_add home_games away_games) (\<lambda>total.
         ebind (py_truediv total (PNum 20)) (\<lambda>q.
         ebind (py_number q) (\<lambda>c.
         ebind (py_getitem home_record ''wins'') (\<lambda>hw.
         ebind (py_getitem home_record ''losses'') (\<lambda>hl.
         ebind (py_getitem away_record ''wins'') (\<lambda>aw.
         ebind (py_getitem away_record ''losses'') (\<lambda>al.
           Inr \<lparr>name = ''Team Strength'', val = (home_win_pct - away_win_pct) * 14,
                weight = w, confidence = (if c < 9 / 10 then c else 9 / 10),
                explanation = TeamStrengthText home_win_pct hw hl away_win_pct aw al\<rparr>
         ))))))))))))))"

definition calculate_team_strength_factor ::
  "engine \<Rightarrow> pyval \<Rightarrow> pyval \<Rightarrow> error + PredictionFactor" where
  "calculate_team_strength_factor eng home away =
     try_except (team_strength_body eng home away)
       (Inr \<lparr>name = ''Team Strength'', val = 0, weight = 0, confidence = 0,
             explanation = Text ''Calculation error''\<rparr>)"

text \<open>
  \<open>_get_historical_matchups\<close>: the games among the 100 most recent rows that the two teams
  played against each other; any failure of the query yields the empty list.
\<close>

definition is_matchup :: "pyval \<Rightarrow> pyval \<Rightarrow> row \<Rightarrow> bool" where
  "is_matchup team1_id team2_id game =
     ((py_of_sql (home_team_id game) = team1_id \<and> py_of_sql (away_team_id game) = team2_id) \<or>
      (py_of_sql (home_team_id game) = team2_id \<and> py_of_sql (away_team_id game) = team1_id))"

definition get_historical_matchups :: "database \<Rightarrow> pyval \<Rightarrow> pyval \<Rightarrow> row list" where
  "get_historical_matchups db team1_id team2_id =
     (case get_games db 100 of
        Inl e \<Rightarrow> []
      | Inr games \<Rightarrow> filter (is_matchup team1_id team2_id) games)"

text \<open>
  The loop over the recent meetings, with its two accumulators \<open>home_wins\<close> and
  \<open>total_point_diff\<close>. The comparison of the scores is evaluated before their difference.
\<close>

fun head_to_head_loop :: "pyval \<Rightarrow> row list \<Rightarrow> nat \<times> real \<Rightarrow> error + nat \<times> real" where
  "head_to_head_loop home_id [] acc = Inr acc"
| "head_to_head_loop home_id (game # rest) (home_wins, total_point_diff) =
     (if py_of_sql (home_team_id game) = home_id then
        ebind (sql_gt (home_score game) (away_score game)) (\<lambda>won.
        ebind (sql_sub (home_score game) (away_score game)) (\<lambda>d.
          head_to_head_loop home_id rest
            (if won then home_wins + 1 else home_wins, total_point_diff + d)))
      else
        ebind (sql_gt (away_score game) (home_score game)) (\<lambda>won.
        ebind (sql_sub (away_score game) (home_score game)) (\<lambda>d.
          head_to_head_loop home_id rest
            (if won then home_wins + 1 else home_wins, total_point_diff + d))))"

text \<open>\<open>xs[-5:]\<close>\<close>

definition last5 :: "'a list \<Rightarrow> 'a list" where
  "last5 xs = drop (length xs - 5) xs"

definition head_to_head_body ::
  "engine \<Rightarrow> database \<Rightarrow> pyval \<Rightarrow> pyval \<Rightarrow> error + PredictionFactor" where
  "head_to_head_body eng db home_id away_id =
     (let historical_games = get_historical_matchups db home_id away_id
      in if length historical_games < 3 then
           ebind (weight_of eng ''head_to_head'') (\<lambda>w.
             Inr \<lparr>name = ''Head-to-Head'', val = 0, weight = w, confidence = 2 / 10,
                  explanation = Text ''Limited historical data''\<rparr>)
         else
           (let recent_games = last5 historical_games
            in ebind (head_to_head_loop home_id recent_games (0, 0)) (\<lambda>(home_wins, total_point_diff).
               let avg_point_diff = total_point_diff / real (length recent_games);
                   c = real (length recent_games) / 5
               in ebind (weight_of eng ''head_to_head'') (\<lambda>w.
                    Inr \<lparr>name = ''Head-to-Head'', val = avg_point_diff, weight = w,
                         confidence = (if c < 8 / 10 then c else 8 / 10),
                         explanation = HeadToHeadText (length recent_games) avg_point_diff\<rparr>))))"

definition calculate_head_to_head_factor ::
  "engine \<Rightarrow> database \<Rightarrow> pyval \<Rightarrow> pyval \<Rightarrow> error + PredictionFactor" where
  "calculate_head_to_head_factor eng db home_id away_id =
     try_except (head_to_head_body eng db home_id away_id)
       (Inr \<lparr>name = ''Head-to-Head'', val = 0, weight = 0, confidence = 0,
             explanation = Text ''Historical data unavailable''\<rparr>)"

text \<open>The table \<open>NFL_STADIUMS\<close> of the configuration: team id, city, state, dome.\<close>

definition NFL_STADIUMS :: "(string \<times> string \<times> string \<times> bool) list" where
  "NFL_STADIUMS =
     [(''1'', ''Atlanta'', ''GA'', True), (''2'', ''Buffalo'', ''NY'', False),
      (''3'', ''Chicago'', ''IL'', False), (''4'', ''Cincinnati'', ''OH'', False),
      (''5'', ''Cleveland'', ''OH'', False), (''6'', ''Arlington'', ''TX'', True),
      (''7'', ''Denver'', ''CO'', False), (''8'', ''Detroit'', ''MI'', True),
      (''9'', ''Green Bay'', ''WI'', False), (''10'', ''Nashville'', ''TN'', False),
      (''11'', ''Indianapolis'', ''IN'', True), (''12'', ''Kansas City'', ''MO'', False),
      (''13'', ''Las Vegas'', ''NV'', True), (''14'', ''Los Angeles'', ''CA'', False),
      (''15'', ''Miami Gardens'', ''FL'', False), (''16'', ''Minneapolis'', ''MN'', True),
      (''17'', ''Foxborough'', ''MA'', False), (''18'', ''New Orleans'', ''LA'', True),
      (''19'', ''East Rutherford'', ''NJ'', False), (''20'', ''East Rutherford'', ''NJ'', False),
      (''21'', ''Philadelphia'', ''PA'', False), (''22'', ''Glendale'', ''AZ'', True),
      (''23'', ''Pittsburgh'', ''PA'', False), (''24'', ''Los Angeles'', ''CA'', False),
      (''25'', ''Santa Clara'', ''CA'', False), (''26'', ''Seattle'', ''WA'', False),
      (''27'', ''Tampa'', ''FL'', False), (''28'', ''Landover'', ''MD'', False),
      (''29'', ''Charlotte'', ''NC'', False), (''30'', ''Jacksonville'', ''FL'', False),
      (''33'', ''Baltimore'', ''MD'', False), (''34'', ''Houston'', ''TX'', True)]"

text \<open>
  \<open>NFL_STADIUMS.get(home_team_id, {}).get('dome', False)\<close>: a list or a dictionary is
  unhashable and makes the lookup raise; a key of another type than \<open>str\<close> is not found.
\<close>

fun stadium_dome :: "pyval \<Rightarrow> error + bool" where
  "stadium_dome (PStr k) =
     Inr (case map_of NFL_STADIUMS k of None \<Rightarrow> False | Some (city, state, dome) \<Rightarrow> dome)"
| "stadium_dome (PList xs) = Inl TypeError"
| "stadium_dome (PDict kvs) = Inl TypeError"
| "stadium_dome _ = Inr False"

definition home_advantage_body :: "engine \<Rightarrow> pyval \<Rightarrow> error + PredictionFactor" where
  "home_advantage_body eng home_id =
     ebind (stadium_dome home_id) (\<lambda>dome.
     let base_advantage = (if dome then 25 / 10 + 5 / 10 else 25 / 10)
     in ebind (weight_of eng ''home_advantage'') (\<lambda>w.
          Inr \<lparr>name = ''Home Advantage'', val = base_advantage, weight = w, confidence = 9 / 10,
               explanation = Text (if dome then ''Standard home advantage: 3.0 points''
                                   else ''Standard home advantage: 2.5 points'')\<rparr>))"

text \<open>
  The handler of the home-advantage calculator reads the weight table again, outside
  any \<open>try\<close> block.
\<close>

definition calculate_home_advantage_factor :: "engine \<Rightarrow> pyval \<Rightarrow> error + PredictionFactor" where
  "calculate_home_advantage_factor eng home_id =
     try_except (home_advantage_body eng home_id)
       (ebind (weight_of eng ''home_advantage'') (\<lambda>w.
          Inr \<lparr>name = ''Home Advantage'', val = 25 / 10, weight = w, confidence = 8 / 10,
               explanation = Text ''Standard advantage''\<rparr>))"

definition rest_body :: "engine \<Rightarrow> pyval \<Rightarrow> error + PredictionFactor" where
  "rest_body eng game =
     ebind (weight_of eng ''rest_advantage'') (\<lambda>w.
       Inr \<lparr>name = ''Rest Advantage'', val = 0, weight = w, confidence = 1 / 10,
            explanation = Text ''Rest data not implemented''\<rparr>)"

definition calculate_rest_factor :: "engine \<Rightarrow> pyval \<Rightarrow> error + PredictionFactor" where
  "calculate_rest_factor eng game =
     try_except (rest_body eng game)
       (Inr \<lparr>name = ''Rest Advantage'', val = 0, weight = 0, confidence = 0,
             explanation = Text ''Data unavailable''\<rparr>)"

definition weather_body :: "engine \<Rightarrow> pyval \<Rightarrow> error + PredictionFactor" where
  "weather_body eng game =
     ebind (py_get game ''weather'' (PDict [])) (\<lambda>weather.
     ebind (if py_truthy weather
            then ebind (py_get weather ''status'' PNone) (\<lambda>st. Inr (st = PStr ''not_needed''))
            else Inr True) (\<lambda>indoor.
       if indoor then
         ebind (weight_of eng ''weather_impact'') (\<lambda>w.
           Inr \<lparr>name = ''Weather'', val = 0, weight = w, confidence = 9 / 10,
                explanation = Text ''Indoor game - no weather impact''\<rparr>)
       else
         ebind (py_get weather ''status'' PNone) (\<lambda>st.
           if st = PStr ''unavailable'' then
             ebind (weight_of eng ''weather_impact'') (\<lambda>w.
               Inr \<lparr>name = ''Weather'', val = 0, weight = w, confidence = 1 / 10,
                    explanation = Text ''Weather data unavailable''\<rparr>)
           else
             ebind (py_get weather ''game_impact'' (PDict [])) (\<lambda>game_impact.
             ebind (py_get game_impact ''total_score_impact'' (PNum 0)) (\<lambda>total_impact.
             ebind (weight_of eng ''weather_impact'') (\<lambda>w.
             ebind (py_format_f total_impact) (\<lambda>v.
             ebind (py_get weather ''conditions'' (PStr ''unknown'')) (\<lambda>conditions.
               Inr \<lparr>name = ''Weather'', val = v, weight = w, confidence = 7 / 10,
                    explanation = WeatherText v conditions\<rparr>))))))))"

definition calculate_weather_factor :: "engine \<Rightarrow> pyval \<Rightarrow> error + PredictionFactor" where
  "calculate_weather_factor eng game =
     try_except (weather_body eng game)
       (Inr \<lparr>name = ''Weather'', val = 0, weight = 0, confidence = 0,
             explanation = Text ''Weather calculation error''\<rparr>)"

definition motivation_body :: "engine \<Rightarrow> pyval \<Rightarrow> error + PredictionFactor" where
  "motivation_body eng game =
     ebind (weight_of eng ''motivation'') (\<lambda>w.
       Inr \<lparr>name = ''Motivation'', val = 0, weight = w, confidence = 2 / 10,
            explanation = Text ''Motivation factors not implemented''\<rparr>)"

definition calculate_motivation_factor :: "engine \<Rightarrow> pyval \<Rightarrow> error + PredictionFactor" where
  "calculate_motivation_factor eng game =
     try_except (motivation_body eng game)
       (Inr \<lparr>name = ''Motivation'', val = 0, weight = 0, confidence = 0,
             explanation = Text ''Motivation data unavailable''\<rparr>)"

definition injury_body :: "engine \<Rightarrow> pyval \<Rightarrow> pyval \<Rightarrow> error + PredictionFactor" where
  "injury_body eng home_id away_id =
     ebind (weight_of eng ''injuries'') (\<lambda>w.
       Inr \<lparr>name = ''Injuries'', val = 0, weight = w, confidence = 1 / 10,
            explanation = Text ''Injury analysis not implemented''\<rparr>)"

definition calculate_injury_factor :: "engine \<Rightarrow> pyval \<Rightarrow> pyval \<Rightarrow> error + PredictionFactor" where
  "calculate_injury_factor eng home_id away_id =
     try_except (injury_body eng home_id away_id)
       (Inr \<lparr>name = ''Injuries'', val = 0, weight = 0, confidence = 0,
             explanation = Text ''Injury data unavailable''\<rparr>)"

text \<open>
  The loop of \<open>_calculate_final_prediction\<close> with its accumulators
  \<open>total_weighted_value\<close> and \<open>total_weight\<close>.
\<close>

fun weighted_totals :: "PredictionFactor list \<Rightarrow> real \<times> real \<Rightarrow> real \<times> real" where
  "weighted_totals [] acc = acc"
| "weighted_totals (factor # rest) (total_weighted_value, total_weight) =
     weighted_totals rest
       (if 0 < confidence factor
        then (total_weighted_value + val factor * weight factor * confidence factor,
              total_weight + weight factor * confidence factor)
        else (total_weighted_value, total_weight))"

record final_prediction =
  winner :: pyval
  fp_confidence :: real
  spread :: real
  total :: "real option"

text \<open>\<open>min(85, abs(predicted_spread) * 8 + 50)\<close>\<close>

definition spread_confidence :: "real \<Rightarrow> real" where
  "spread_confidence predicted_spread =
     (let c = \<bar>predicted_spread\<bar> * 8 + 50 in if c < 85 then c else 85)"

definition calculate_final_prediction ::
  "PredictionFactor list \<Rightarrow> pyval \<Rightarrow> pyval \<Rightarrow> error + final_prediction" where
  "calculate_final_prediction fs home away =
     (let (total_weighted_value, total_weight) = weighted_totals fs (0, 0);
          predicted_spread = (if 0 < total_weight then total_weighted_value / total_weight else 0)
      in ebind (if 0 < predicted_spread then py_getitem home ''name'' else py_getitem away ''name'')
           (\<lambda>w. Inr \<lparr>winner = w,
                      fp_confidence = py_round1 (spread_confidence predicted_spread),
                      spread = py_round1 predicted_spread,
                      total = None\<rparr>))"

text \<open>
  \<open>_predict_single_game\<close>; \<open>now\<close> is what \<open>datetime.now()\<close> returns when the prediction
  is built. \<open>Inr None\<close> is the return value \<open>None\<close> for a game that is not scheduled,
  \<open>Inl e\<close> an exception raised outward.
\<close>

definition predict_single_game ::
  "engine \<Rightarrow> database \<Rightarrow> nat \<Rightarrow> pyval \<Rightarrow> error + GamePrediction option" where
  "predict_single_game eng db now game =
     ebind (py_get game ''status'' PNone) (\<lambda>st.
       if st = PStr ''STATUS_SCHEDULED'' then
         ebind (py_getitem game ''home_team'') (\<lambda>home.
         ebind (py_getitem game ''away_team'') (\<lambda>away.
         ebind (calculate_team_strength_factor eng home away) (\<lambda>f1.
         ebind (py_getitem home ''id'') (\<lambda>home_id.
         ebind (py_getitem away ''id'') (\<lambda>away_id.
         ebind (calculate_head_to_head_factor eng db home_id away_id) (\<lambda>f2.
         ebind (calculate_home_advantage_factor eng home_id) (\<lambda>f3.
         ebind (calculate_rest_factor eng game) (\<lambda>f4.
         ebind (calculate_weather_factor eng game) (\<lambda>f5.
         ebind (calculate_motivation_factor eng game) (\<lambda>f6.
         ebind (calculate_injury_factor eng home_id away_id) (\<lambda>f7.
         let fs = [f1, f2, f3, f4, f5, f6, f7]
         in ebind (calculate_final_prediction fs home away) (\<lambda>prediction_result.
            ebind (py_getitem game ''espn_id'') (\<lambda>gid.
            ebind (py_getitem home ''name'') (\<lambda>home_name.
            ebind (py_getitem away ''name'') (\<lambda>away_name.
              Inr (Some \<lparr>game_id = gid, home_team = home_name, away_team = away_name,
                         predicted_winner = winner prediction_result,
                         p_confidence = fp_confidence prediction_result,
                         spread_prediction = spread prediction_result,
                         total_prediction = total prediction_result,
                         factors = fs,
                         algorithm_version = version eng,
                         created_at = now\<rparr>))))))))))))))))
       else Inr None)"

section \<open>Backtester\<close>

text \<open>
  A backtester owns a prediction engine; its database handle is the games table passed
  to each operation.
\<close>

record backtester =
  prediction_engine :: engine

text \<open>\<open>Backtester()\<close>\<close>

definition Backtester :: backtester where
  "Backtester = \<lparr>prediction_engine = AdvancedPredictionEngine\<rparr>"

text \<open>\<open>_is_game_completed\<close>; comparing a NULL or a text score with \<open>0\<close> raises.\<close>

definition is_game_completed :: "row \<Rightarrow> error + bool" where
  "is_game_completed game =
     (if status game = SText ''STATUS_FINAL'' then Inr True
      else ebind (sql_gt (home_score game) (SNum 0)) (\<lambda>h.
             if h then Inr True else sql_gt (away_score game) (SNum 0)))"

text \<open>The list comprehension \<open>[game for game in all_games if self._is_game_completed(game)]\<close>.\<close>

fun completed_only :: "row list \<Rightarrow> error + row list" where
  "completed_only [] = Inr []"
| "completed_only (game # rest) =
     ebind (is_game_completed game) (\<lambda>c.
     ebind (completed_only rest) (\<lambda>gs. Inr (if c then game # gs else gs)))"

text \<open>\<open>_get_historical_games\<close>: the date arguments are accepted and not used.\<close>

definition get_historical_games ::
  "database \<Rightarrow> string option \<Rightarrow> string option \<Rightarrow> row list" where
  "get_historical_games db start_date end_date =
     (case ebind (get_games db 500) completed_only of
        Inl e \<Rightarrow> []
      | Inr completed_games \<Rightarrow> completed_games)"

text \<open>The synthetic scheduled matchup that \<open>_predict_historical_game\<close> builds from a row.\<close>

definition game_data_of :: "row \<Rightarrow> pyval \<Rightarrow> pyval" where
  "game_data_of game weather =
     PDict [(''espn_id'', py_of_sql (espn_id game)),
            (''status'', PStr ''STATUS_SCHEDULED''),
            (''home_team'', PDict [(''id'', py_of_sql (home_team_id game)),
                                   (''name'', py_of_sql (home_team_name game)),
                                   (''record'', zero_record)]),
            (''away_team'', PDict [(''id'', py_of_sql (away_team_id game)),
                                   (''name'', py_of_sql (away_team_name game)),
                                   (''record'', zero_record)]),
            (''weather'', weather)]"

text \<open>\<open>json.loads(game.get('weather_data', '{}')) if game.get('weather_data') else {}\<close>\<close>

fun loads_weather :: "stored_json \<Rightarrow> error + pyval" where
  "loads_weather NoText = Inr (PDict [])"
| "loads_weather Malformed = Inl JSONDecodeError"
| "loads_weather (Json v) = Inr v"

definition predict_historical_game ::
  "backtester \<Rightarrow> database \<Rightarrow> nat \<Rightarrow> row \<Rightarrow> GamePrediction option" where
  "predict_historical_game bt db now game =
     (case ebind (loads_weather (weather_data game)) (\<lambda>weather.
             predict_single_game (prediction_engine bt) db now (game_data_of game weather)) of
        Inl e \<Rightarrow> None
      | Inr prediction \<Rightarrow> prediction)"

definition get_actual_winner :: "row \<Rightarrow> error + pyval" where
  "get_actual_winner game =
     ebind (sql_gt (home_score game) (away_score game)) (\<lambda>h.
       if h then Inr (py_of_sql (home_team_name game))
       else ebind (sql_gt (away_score game) (home_score game)) (\<lambda>a.
              if a then Inr (py_of_sql (away_team_name game)) else Inr (PStr ''TIE'')))"

definition get_confidence_bucket :: "real \<Rightarrow> string" where
  "get_confidence_bucket c =
     (if 80 \<le> c then ''80%+''
      else if 70 \<le> c then ''70-80%''
      else if 60 \<le> c then ''60-70%''
      else ''50-60%'')"

text \<open>A confidence bucket is its key with the counters \<open>correct\<close> and \<open>total\<close>.\<close>

type_synonym buckets = "(string \<times> nat \<times> nat) list"

definition empty_buckets :: buckets where
  "empty_buckets = [(''50-60%'', 0, 0), (''60-70%'', 0, 0), (''70-80%'', 0, 0), (''80%+'', 0, 0)]"

definition count_in_bucket :: "string \<Rightarrow> bool \<Rightarrow> buckets \<Rightarrow> buckets" where
  "count_in_bucket bucket is_correct bs =
     map (\<lambda>(k, correct, n).
            if k = bucket then (k, if is_correct then correct + 1 else correct, n + 1)
            else (k, correct, n)) bs"

text \<open>One entry of \<open>results['predictions']\<close>; a factor is kept as name, value and weight.\<close>

record prediction_detail =
  d_game_id :: sqlval
  d_matchup :: "sqlval \<times> sqlval"
  d_predicted_winner :: pyval
  d_actual_winner :: pyval
  d_confidence :: real
  d_correct :: bool
  d_factors :: "(string \<times> real \<times> real) list"

record factor_stats =
  s_total_predictions :: nat
  s_correct_predictions :: nat
  s_avg_impact :: real
  s_accuracy :: real

text \<open>
  \<open>_analyze_factors\<close>: a dictionary in insertion order, filled by the two nested loops
  and averaged by the final one.
\<close>

fun touch_factor ::
  "string \<Rightarrow> real \<Rightarrow> bool \<Rightarrow> (string \<times> factor_stats) list \<Rightarrow> (string \<times> factor_stats) list" where
  "touch_factor k v is_correct [] =
     [(k, \<lparr>s_total_predictions = 1,
           s_correct_predictions = (if is_correct then 1 else 0),
           s_avg_impact = \<bar>v\<bar>, s_accuracy = 0\<rparr>)]"
| "touch_factor k v is_correct ((k', st) # rest) =
     (if k' = k
      then (k', st\<lparr>s_total_predictions := s_total_predictions st + 1,
                   s_avg_impact := s_avg_impact st + \<bar>v\<bar>,
                   s_correct_predictions :=
                     (if is_correct then s_correct_predictions st + 1
                      else s_correct_predictions st)\<rparr>) # rest
      else (k', st) # touch_factor k v is_correct rest)"

fun touch_factors ::
  "bool \<Rightarrow> (string \<times> real \<times> real) list \<Rightarrow> (string \<times> factor_stats) list
     \<Rightarrow> (string \<times> factor_stats) list" where
  "touch_factors is_correct [] perf = perf"
| "touch_factors is_correct ((k, v, w) # rest) perf =
     touch_factors is_correct rest (touch_factor k v is_correct perf)"

fun collect_factors ::
  "prediction_detail list \<Rightarrow> (string \<times> factor_stats) list \<Rightarrow> (string \<times> factor_stats) list" where
  "collect_factors [] perf = perf"
| "collect_factors (pred # rest) perf =
     collect_factors rest (touch_factors (d_correct pred) (d_factors pred) perf)"

definition average_stats :: "factor_stats \<Rightarrow> factor_stats" where
  "average_stats st =
     (if 0 < s_total_predictions st
      then st\<lparr>s_accuracy := real (s_correct_predictions st) / real (s_total_predictions st),
              s_avg_impact := s_avg_impact st / real (s_total_predictions st)\<rparr>
      else st)"

definition analyze_factors :: "prediction_detail list \<Rightarrow> (string \<times> factor_stats) list" where
  "analyze_factors preds = map (\<lambda>(k, st). (k, average_stats st)) (collect_factors preds [])"

record backtest_results =
  total_games :: nat
  completed_games :: nat
  correct_predictions :: nat
  accuracy :: real
  avg_confidence :: real
  predictions :: "prediction_detail list"
  performance_by_confidence :: buckets
  factor_analysis :: "(string \<times> factor_stats) list"

text \<open>
  What \<open>run_backtest\<close> returns: the dictionary with key \<open>error\<close> when there is no
  historical game, the results otherwise.
\<close>

datatype backtest_report = NoHistoricalGames | Report backtest_results

text \<open>
  The main loop of \<open>run_backtest\<close>. Its state is the \<open>results\<close> dictionary,
  \<open>total_confidence\<close> and the bucket table; the clock advances with every prediction
  attempt. An exception of \<open>_get_actual_winner\<close> is not caught here.
\<close>

fun backtest_loop ::
  "backtester \<Rightarrow> database \<Rightarrow> row list \<Rightarrow> backtest_results \<times> real \<times> buckets \<Rightarrow> nat
     \<Rightarrow> (error + backtest_results \<times> real \<times> buckets) \<times> nat" where
  "backtest_loop bt db [] st now = (Inr st, now)"
| "backtest_loop bt db (game # rest) (results, total_confidence, bs) now =
     (case is_game_completed game of
        Inl e \<Rightarrow> (Inl e, now)
      | Inr False \<Rightarrow> backtest_loop bt db rest (results, total_confidence, bs) now
      | Inr True \<Rightarrow>
          (case predict_historical_game bt db now game of
             None \<Rightarrow> backtest_loop bt db rest (results, total_confidence, bs) (Suc now)
           | Some prediction \<Rightarrow>
               (case get_actual_winner game of
                  Inl e \<Rightarrow> (Inl e, Suc now)
                | Inr actual_winner \<Rightarrow>
                    (let is_correct = (actual_winner = predicted_winner prediction);
                         c = p_confidence prediction;
                         detail = \<lparr>d_game_id = espn_id game,
                                   d_matchup = (away_team_name game, home_team_name game),
                                   d_predicted_winner = predicted_winner prediction,
                                   d_actual_winner = actual_winner,
                                   d_confidence = c,
                                   d_correct = is_correct,
                                   d_factors = map (\<lambda>f. (name f, val f, weight f))
                                                 (factors prediction)\<rparr>
                     in backtest_loop bt db rest
                          (results\<lparr>completed_games := completed_games results + 1,
                                   correct_predictions :=
                                     (if is_correct then correct_predictions results + 1
                                      else correct_predictions results),
                                   predictions := predictions results @ [detail]\<rparr>,
                           total_confidence + c,
                           count_in_bucket (get_confidence_bucket c) is_correct bs)
                          (Suc now)))))"

definition run_backtest ::
  "backtester \<Rightarrow> database \<Rightarrow> string option \<Rightarrow> string option \<Rightarrow> nat
     \<Rightarrow> (error + backtest_report) \<times> nat" where
  "run_backtest bt db start_date end_date now =
     (let historical_games = get_historical_games db start_date end_date
      in if historical_games = [] then (Inr NoHistoricalGames, now)
         else
           (case backtest_loop bt db historical_games
                   (\<lparr>total_games = length historical_games, completed_games = 0,
                     correct_predictions = 0, accuracy = 0, avg_confidence = 0,
                     predictions = [], performance_by_confidence = [],
                     factor_analysis = []\<rparr>, 0, empty_buckets) now of
              (Inl e, t) \<Rightarrow> (Inl e, t)
            | (Inr (results, total_confidence, bs), t) \<Rightarrow>
                (let scored =
                       (if 0 < completed_games results
                        then results\<lparr>accuracy := real (correct_predictions results)
                                                   / real (completed_games results),
                                     avg_confidence := total_confidence
                                                   / real (completed_games results)\<rparr>
                        else results)
                 in (Inr (Report (scored\<lparr>performance_by_confidence := bs,
                                         factor_analysis := analyze_factors (predictions scored)\<rparr>)),
                     t))))"

section \<open>Optimizer\<close>

record optimizer =
  backtester :: backtester
  base_engine :: engine

text \<open>\<open>AlgorithmOptimizer()\<close>\<close>

definition AlgorithmOptimizer :: optimizer where
  "AlgorithmOptimizer = \<lparr>backtester = Backtester, base_engine = AdvancedPredictionEngine\<rparr>"

definition weight_options :: "(string \<times> real list) list" where
  "weight_options =
     [(''team_strength'', [25 / 100, 30 / 100, 35 / 100, 40 / 100]),
      (''head_to_head'', [15 / 100, 20 / 100, 25 / 100]),
      (''home_advantage'', [10 / 100, 15 / 100, 20 / 100]),
      (''rest_advantage'', [5 / 100, 10 / 100, 15 / 100]),
      (''weather_impact'', [5 / 100, 10 / 100, 15 / 100]),
      (''motivation'', [2 / 100, 5 / 100, 8 / 100]),
      (''injuries'', [2 / 100, 5 / 100, 8 / 100])]"

text \<open>\<open>_generate_weight_combinations\<close>: three fixed configurations, whatever the options.\<close>

definition generate_weight_combinations :: "(string \<times> real list) list \<Rightarrow> weights list" where
  "generate_weight_combinations options =
     [[(''team_strength'', 35 / 100), (''head_to_head'', 20 / 100), (''home_advantage'', 15 / 100),
       (''rest_advantage'', 10 / 100), (''weather_impact'', 10 / 100), (''motivation'', 5 / 100),
       (''injuries'', 5 / 100)],
      [(''team_strength'', 45 / 100), (''head_to_head'', 15 / 100), (''home_advantage'', 15 / 100),
       (''rest_advantage'', 10 / 100), (''weather_impact'', 8 / 100), (''motivation'', 4 / 100),
       (''injuries'', 3 / 100)],
      [(''team_strength'', 30 / 100), (''head_to_head'', 30 / 100), (''home_advantage'', 15 / 100),
       (''rest_advantage'', 10 / 100), (''weather_impact'', 8 / 100), (''motivation'', 4 / 100),
       (''injuries'', 3 / 100)]]"

definition create_test_engine :: "weights \<Rightarrow> engine" where
  "create_test_engine ws = AdvancedPredictionEngine\<lparr>factor_weights := ws\<rparr>"

record test_results =
  t_accuracy :: real
  t_completed_games :: nat
  t_correct_predictions :: "nat option"

text \<open>
  The loop of \<open>_run_test_backtest\<close> with its counters \<open>correct\<close> and \<open>total\<close>. Every
  prediction is made by the engine of the optimizer's backtester.
\<close>

fun test_loop ::
  "backtester \<Rightarrow> database \<Rightarrow> row list \<Rightarrow> nat \<times> nat \<Rightarrow> nat \<Rightarrow> (error + nat \<times> nat) \<times> nat" where
  "test_loop bt db [] counters now = (Inr counters, now)"
| "test_loop bt db (game # rest) (correct, n) now =
     (case is_game_completed game of
        Inl e \<Rightarrow> (Inl e, now)
      | Inr False \<Rightarrow> test_loop bt db rest (correct, n) now
      | Inr True \<Rightarrow>
          (case predict_historical_game bt db now game of
             None \<Rightarrow> test_loop bt db rest (correct, n) (Suc now)
           | Some prediction \<Rightarrow>
               (case get_actual_winner game of
                  Inl e \<Rightarrow> (Inl e, Suc now)
                | Inr actual_winner \<Rightarrow>
                    test_loop bt db rest
                      (if predicted_winner prediction = actual_winner then correct + 1 else correct,
                       n + 1)
                      (Suc now))))"

text \<open>
  \<open>_run_test_backtest(engine)\<close>: the first 50 historical games; any exception gives the
  empty result. The parameter \<open>engine\<close> does not occur in the body.
\<close>

definition run_test_backtest ::
  "optimizer \<Rightarrow> database \<Rightarrow> engine \<Rightarrow> nat \<Rightarrow> test_results \<times> nat" where
  "run_test_backtest opt db engine now =
     (let historical_games = take 50 (get_historical_games db None None)
      in if historical_games = []
         then (\<lparr>t_accuracy = 0, t_completed_games = 0, t_correct_predictions = None\<rparr>, now)
         else
           (case test_loop (backtester opt) db historical_games (0, 0) now of
              (Inl e, t) \<Rightarrow>
                (\<lparr>t_accuracy = 0, t_completed_games = 0, t_correct_predictions = None\<rparr>, t)
            | (Inr (correct, n), t) \<Rightarrow>
                (\<lparr>t_accuracy = (if 0 < n then real correct / real n else 0),
                  t_completed_games = n,
                  t_correct_predictions = Some correct\<rparr>, t)))"

record test_log =
  l_weights :: weights
  l_accuracy :: real
  l_total_games :: nat

record search_state =
  best_accuracy :: real
  best_weights :: "weights option"
  best_results :: "test_results option"
  results_log :: "test_log list"

text \<open>The loop of \<open>optimize_factor_weights\<close> over the candidate configurations.\<close>

fun search_loop ::
  "optimizer \<Rightarrow> database \<Rightarrow> weights list \<Rightarrow> search_state \<Rightarrow> nat \<Rightarrow> search_state \<times> nat" where
  "search_loop opt db [] st now = (st, now)"
| "search_loop opt db (ws # rest) st now =
     (let test_engine = create_test_engine ws;
          (backtest_results, t) = run_test_backtest opt db test_engine now;
          st' = (if best_accuracy st < t_accuracy backtest_results
                 then st\<lparr>best_accuracy := t_accuracy backtest_results,
                         best_weights := Some ws,
                         best_results := Some backtest_results\<rparr>
                 else st)
      in search_loop opt db rest
           (st'\<lparr>results_log := results_log st' @
                   [\<lparr>l_weights = ws, l_accuracy = t_accuracy backtest_results,
                     l_total_games = t_completed_games backtest_results\<rparr>]\<rparr>)
           t)"

record optimization =
  o_best_weights :: "weights option"
  o_best_accuracy :: real
  o_best_results :: "test_results option"
  o_all_tests :: "test_log list"
  o_optimization_date :: nat

definition optimize_factor_weights :: "optimizer \<Rightarrow> database \<Rightarrow> nat \<Rightarrow> optimization \<times> nat" where
  "optimize_factor_weights opt db now =
     (let test_combinations = generate_weight_combinations weight_options;
          (st, t) = search_loop opt db (take 10 test_combinations)
                      \<lparr>best_accuracy = 0, best_weights = None, best_results = None,
                       results_log = []\<rparr> now
      in (\<lparr>o_best_weights = best_weights st, o_best_accuracy = best_accuracy st,
           o_best_results = best_results st, o_all_tests = results_log st,
           o_optimization_date = t\<rparr>, Suc t))"

text \<open>
  The redistribution step of \<open>analyze_factor_importance\<close>: the factor is popped and its
  weight is spread over the remaining factors in proportion to their weights.
\<close>

definition redistribute :: "weights \<Rightarrow> string \<Rightarrow> real \<Rightarrow> weights" where
  "redistribute ws factor_name removed_weight =
     (let test_weights = filter (\<lambda>(k, w). k \<noteq> factor_name) ws;
          total_remaining = sum_list (map snd test_weights)
      in if 0 < total_remaining
         then map (\<lambda>(k, w). (k, w + removed_weight * w / total_remaining)) test_weights
         else test_weights)"

record factor_importance =
  i_baseline_accuracy :: real
  i_without_factor_accuracy :: real
  i_accuracy_drop :: real
  i_importance_score :: real

fun importance_loop ::
  "optimizer \<Rightarrow> database \<Rightarrow> real \<Rightarrow> weights \<Rightarrow> (string \<times> factor_importance) list \<Rightarrow> nat
     \<Rightarrow> (string \<times> factor_importance) list \<times> nat" where
  "importance_loop opt db baseline [] analysis now = (analysis, now)"
| "importance_loop opt db baseline ((factor_name, removed_weight) # rest) analysis now =
     (let test_weights = redistribute (factor_weights (base_engine opt)) factor_name removed_weight;
          test_engine = create_test_engine test_weights;
          (test_results, t) = run_test_backtest opt db test_engine now;
          accuracy_drop = baseline - t_accuracy test_results
      in importance_loop opt db baseline rest
           (analysis @
              [(factor_name,
                \<lparr>i_baseline_accuracy = baseline,
                 i_without_factor_accuracy = t_accuracy test_results,
                 i_accuracy_drop = accuracy_drop,
                 i_importance_score = accuracy_drop * 100\<rparr>)])
           t)"

datatype importance_report =
    NoHistoricalData
  | Importance real "(string \<times> factor_importance) list" nat

text \<open>
  \<open>analyze_factor_importance\<close>: the baseline is a full \<open>run_backtest\<close>, each ablation a
  \<open>_run_test_backtest\<close>. The weight table is a dictionary, so its keys are distinct.
\<close>

definition analyze_factor_importance ::
  "optimizer \<Rightarrow> database \<Rightarrow> nat \<Rightarrow> (error + importance_report) \<times> nat" where
  "analyze_factor_importance opt db now =
     (case run_backtest (backtester opt) db None None now of
        (Inl e, t) \<Rightarrow> (Inl e, t)
      | (Inr NoHistoricalGames, t) \<Rightarrow> (Inr NoHistoricalData, t)
      | (Inr (Report baseline_results), t) \<Rightarrow>
          (if completed_games baseline_results = 0 then (Inr NoHistoricalData, t)
           else
             (let (analysis, t') =
                    importance_loop opt db (accuracy baseline_results)
                      (factor_weights (base_engine opt)) [] t
              in (Inr (Importance (accuracy baseline_results) analysis t'), Suc t'))))"

section \<open>Betting simulation in binary64 arithmetic\<close>

text \<open>
  The documented outputs of the betting simulation are decimal figures, and whether the
  code returns exactly these depends on the rounding of Python's \<open>float\<close>. So this one
  function is modelled with that rounding: a float is the real number it denotes, and
  every operation returns the exact result rounded to the nearest number with a
  significand of 53 bits, a tie going to the even significand. Overflow and subnormal
  numbers are not modelled.

  \<open>binade x\<close> is the exponent \<open>e\<close> with \<open>2 ^ e \<le> \<bar>x\<bar> < 2 ^ (e + 1)\<close>.
\<close>

definition pow2 :: "int \<Rightarrow> real" where
  "pow2 e = (if 0 \<le> e then 2 ^ nat e else 1 / 2 ^ nat (- e))"

definition binade :: "real \<Rightarrow> int" where
  "binade x =
     (if 1 \<le> \<bar>x\<bar> then int (floorlog 2 (nat \<lfloor>\<bar>x\<bar>\<rfloor>)) - 1
      else (let l = int (floorlog 2 (nat \<lfloor>1 / \<bar>x\<bar>\<rfloor>)) - 1
            in if \<bar>x\<bar> * 2 ^ nat l = 1 then - l else - l - 1))"

definition fl64 :: "real \<Rightarrow> real" where
  "fl64 x =
     (if x = 0 then 0
      else (let u = pow2 (binade x - 52) in of_int (round_half_even (x / u)) * u))"

text \<open>
  The loop of \<open>simulate_betting_performance\<close> with its counters \<open>total_bets\<close>,
  \<open>total_winnings\<close> and \<open>total_wagered\<close>; \<open>0.9091\<close> is the float nearest to that decimal.
\<close>

fun betting_loop ::
  "prediction_detail list \<Rightarrow> real \<Rightarrow> nat \<times> real \<times> real \<Rightarrow> nat \<times> real \<times> real" where
  "betting_loop [] bet_amount acc = acc"
| "betting_loop (prediction # rest) bet_amount (bets, winnings, wagered) =
     (if d_confidence prediction < 60 then betting_loop rest bet_amount (bets, winnings, wagered)
      else betting_loop rest bet_amount
             (bets + 1,
              (if d_correct prediction
               then fl64 (winnings + fl64 (bet_amount * fl64 (9091 / 10000)))
               else winnings),
              fl64 (wagered + bet_amount)))"

record betting_performance =
  total_bets :: nat
  total_wagered :: real
  total_winnings :: real
  profit_loss :: real
  roi_percentage :: real
  break_even_accuracy :: real

text \<open>\<open>backtest_results.get('predictions', [])\<close>\<close>

fun predictions_of :: "backtest_report \<Rightarrow> prediction_detail list" where
  "predictions_of NoHistoricalGames = []"
| "predictions_of (Report results) = predictions results"

definition simulate_betting_performance :: "backtest_report \<Rightarrow> real \<Rightarrow> betting_performance" where
  "simulate_betting_performance report bet_amount =
     (let (bets, winnings, wagered) = betting_loop (predictions_of report) bet_amount (0, 0, 0);
          pl = fl64 (winnings - wagered);
          roi = (if 0 < wagered then fl64 (fl64 (pl / wagered) * 100) else 0)
      in \<lparr>total_bets = bets, total_wagered = wagered, total_winnings = winnings,
           profit_loss = pl, roi_percentage = roi,
           break_even_accuracy = fl64 (5238 / 100)\<rparr>)"

section \<open>Concrete inputs\<close>

text \<open>Two teams with the season records 10-0-0 and 0-10-0, and an upcoming game between them.\<close>

definition bills :: pyval where
  "bills = PDict [(''id'', PStr ''2''), (''name'', PStr ''Buffalo Bills''),
                  (''record'', PDict [(''wins'', PNum 10), (''losses'', PNum 0), (''ties'', PNum 0)])]"

definition dolphins :: pyval where
  "dolphins = PDict [(''id'', PStr ''15''), (''name'', PStr ''Miami Dolphins''),
                     (''record'', PDict [(''wins'', PNum 0), (''losses'', PNum 10), (''ties'', PNum 0)])]"

definition upcoming_game :: pyval where
  "upcoming_game =
     PDict [(''espn_id'', PStr ''401547417''), (''status'', PStr ''STATUS_SCHEDULED''),
            (''home_team'', bills), (''away_team'', dolphins),
            (''weather'', PDict [(''status'', PStr ''unavailable'')])]"

text \<open>What the engine with the default weights predicts for it at time 7, with an empty games table.\<close>

definition upcoming_prediction :: GamePrediction where
  "upcoming_prediction =
     \<lparr>game_id = PStr ''401547417'', home_team = PStr ''Buffalo Bills'',
      away_team = PStr ''Miami Dolphins'', predicted_winner = PStr ''Buffalo Bills'',
      p_confidence = 85, spread_prediction = 9, total_prediction = None,
      factors =
        [\<lparr>name = ''Team Strength'', val = 14, weight = 35 / 100, confidence = 9 / 10,
          explanation = TeamStrengthText 1 (PNum 10) (PNum 0) 0 (PNum 0) (PNum 10)\<rparr>,
         \<lparr>name = ''Head-to-Head'', val = 0, weight = 20 / 100, confidence = 2 / 10,
          explanation = Text ''Limited historical data''\<rparr>,
         \<lparr>name = ''Home Advantage'', val = 25 / 10, weight = 15 / 100, confidence = 9 / 10,
          explanation = Text ''Standard home advantage: 2.5 points''\<rparr>,
         \<lparr>name = ''Rest Advantage'', val = 0, weight = 10 / 100, confidence = 1 / 10,
          explanation = Text ''Rest data not implemented''\<rparr>,
         \<lparr>name = ''Weather'', val = 0, weight = 10 / 100, confidence = 1 / 10,
          explanation = Text ''Weather data unavailable''\<rparr>,
         \<lparr>name = ''Motivation'', val = 0, weight = 5 / 100, confidence = 2 / 10,
          explanation = Text ''Motivation factors not implemented''\<rparr>,
         \<lparr>name = ''Injuries'', val = 0, weight = 5 / 100, confidence = 1 / 10,
          explanation = Text ''Injury analysis not implemented''\<rparr>],
      algorithm_version = ''1.0'', created_at = 7\<rparr>"

text \<open>Seven factors of confidence 0: what the handlers of six calculators return, and a
  seventh of the same shape.\<close>

definition failed_factors :: "PredictionFactor list" where
  "failed_factors =
     [\<lparr>name = ''Team Strength'', val = 0, weight = 0, confidence = 0,
       explanation = Text ''Calculation error''\<rparr>,
      \<lparr>name = ''Head-to-Head'', val = 0, weight = 0, confidence = 0,
       explanation = Text ''Historical data unavailable''\<rparr>,
      \<lparr>name = ''Home Advantage'', val = 25 / 10, weight = 15 / 100, confidence = 0,
       explanation = Text ''Standard advantage''\<rparr>,
      \<lparr>name = ''Rest Advantage'', val = 0, weight = 0, confidence = 0,
       explanation = Text ''Data unavailable''\<rparr>,
      \<lparr>name = ''Weather'', val = 0, weight = 0, confidence = 0,
       explanation = Text ''Weather calculation error''\<rparr>,
      \<lparr>name = ''Motivation'', val = 0, weight = 0, confidence = 0,
       explanation = Text ''Motivation data unavailable''\<rparr>,
      \<lparr>name = ''Injuries'', val = 0, weight = 0, confidence = 0,
       explanation = Text ''Injury data unavailable''\<rparr>]"

text \<open>An engine whose weight table only knows the home advantage.\<close>

definition home_advantage_only :: engine where
  "home_advantage_only = create_test_engine [(''home_advantage'', 15 / 100)]"

text \<open>
  A finished home win (24-17) played in rain and wind, weather impact \<open>-5\<close> points, as the
  only row of the games table.
\<close>

definition snow_game :: row where
  "snow_game =
     \<lparr>espn_id = SText ''hist_001'',
      home_team_id = SText ''2'', home_team_name = SText ''Buffalo Bills'',
      away_team_id = SText ''15'', away_team_name = SText ''Miami Dolphins'',
      status = SText ''STATUS_FINAL'', home_score = SNum 24, away_score = SNum 17,
      weather_data = Json (PDict [(''conditions'', PStr ''Rain''),
                                  (''game_impact'', PDict [(''total_score_impact'', PNum (- 5))])]),
      raw_data = Json (PDict [])\<rparr>"

text \<open>The second candidate of the weight search.\<close>

definition heavy_team_strength :: weights where
  "heavy_team_strength = generate_weight_combinations weight_options ! 1"

text \<open>A finished away win (21-28), the third sample game of the repository.\<close>

definition away_win_game :: row where
  "away_win_game =
     \<lparr>espn_id = SText ''hist_003'',
      home_team_id = SText ''25'', home_team_name = SText ''San Francisco 49ers'',
      away_team_id = SText ''26'', away_team_name = SText ''Seattle Seahawks'',
      status = SText ''STATUS_FINAL'', home_score = SNum 21, away_score = SNum 28,
      weather_data = Json (PDict [(''conditions'', PStr ''rain'')]),
      raw_data = Json (PDict [])\<rparr>"

text \<open>
  A games table of 51 finished meetings of the same two teams: the home team won the first
  fifty 24-17 and lost the last one 17-24.
\<close>

definition season_game :: "nat \<Rightarrow> row" where
  "season_game i =
     \<lparr>espn_id = SText (''hist_'' @ replicate i (CHR ''x'')),
      home_team_id = SText ''2'', home_team_name = SText ''Buffalo Bills'',
      away_team_id = SText ''15'', away_team_name = SText ''Miami Dolphins'',
      status = SText ''STATUS_FINAL'',
      home_score = SNum (if i < 50 then 24 else 17),
      away_score = SNum (if i < 50 then 17 else 24),
      weather_data = NoText, raw_data = NoText\<rparr>"

definition season :: database where
  "season = map season_game [0..<51]"

text \<open>An optimizer whose baseline configuration gives the injuries factor the weight 0.\<close>

definition zero_injury_optimizer :: optimizer where
  "zero_injury_optimizer =
     AlgorithmOptimizer\<lparr>base_engine := create_test_engine
       [(''team_strength'', 35 / 100), (''head_to_head'', 20 / 100), (''home_advantage'', 15 / 100),
        (''rest_advantage'', 10 / 100), (''weather_impact'', 15 / 100), (''motivation'', 5 / 100),
        (''injuries'', 0)]\<rparr>"

text \<open>A backtest result with ten predictions, each of confidence 65 and correct.\<close>

definition good_bet :: prediction_detail where
  "good_bet =
     \<lparr>d_game_id = SText ''hist_001'', d_matchup = (SText ''Miami Dolphins'', SText ''Buffalo Bills''),
      d_predicted_winner = PStr ''Buffalo Bills'', d_actual_winner = PStr ''Buffalo Bills'',
      d_confidence = 65, d_correct = True, d_factors = []\<rparr>"

definition ten_correct_bets :: backtest_report where
  "ten_correct_bets =
     Report \<lparr>total_games = 10, completed_games = 10, correct_predictions = 10,
             accuracy = 1, avg_confidence = 65, predictions = replicate 10 good_bet,
             performance_by_confidence =
               [(''50-60%'', 0, 0), (''60-70%'', 10, 10), (''70-80%'', 0, 0), (''80%+'', 0, 0)],
             factor_analysis = []\<rparr>"

section \<open>Basic facts\<close>

lemma ebind_Inr_iff: "ebind m f = Inr y \<longleftrightarrow> (\<exists>x. m = Inr x \<and> f x = Inr y)"
  by (cases m) (simp_all add: ebind_def)

lemma ebind_Inr [simp]: "ebind (Inr x) f = f x"
  by (simp add: ebind_def)

lemma ebind_Inl [simp]: "ebind (Inl e) f = Inl e"
  by (simp add: ebind_def)

lemma try_except_Inr [simp]: "try_except (Inr x) h = Inr x"
  by (simp add: try_except_def)

lemma try_except_Inl [simp]: "try_except (Inl e) h = h"
  by (simp add: try_except_def)

subsection \<open>Rounding\<close>

lemma round_half_even_of_int [simp]: "round_half_even (of_int k) = k"
  by (simp add: round_half_even_def)

lemma round_half_even_ge:
  assumes "of_int k \<le> y"
  shows "k \<le> round_half_even y"
proof -
  have "k \<le> \<lfloor>y\<rfloor>" using assms by (simp add: le_floor_iff)
  moreover have "\<lfloor>y\<rfloor> \<le> round_half_even y"
    by (simp add: round_half_even_def Let_def)
  ultimately show ?thesis by linarith
qed

lemma round_half_even_le:
  assumes "y \<le> of_int k"
  shows "round_half_even y \<le> k"
proof (cases "y = of_int k")
  case True
  then show ?thesis by simp
next
  case False
  with assms have "y < of_int k" by simp
  then have "\<lfloor>y\<rfloor> < k" by (simp add: floor_less_iff)
  moreover have "round_half_even y \<le> \<lfloor>y\<rfloor> + 1"
    by (simp add: round_half_even_def Let_def)
  ultimately show ?thesis by linarith
qed

lemma py_round1_range:
  assumes "50 \<le> x" "x \<le> 85"
  shows "50 \<le> py_round1 x \<and> py_round1 x \<le> 85"
proof -
  have "(500::int) \<le> round_half_even (x * 10)"
    by (rule round_half_even_ge) (use assms in simp)
  moreover have "round_half_even (x * 10) \<le> (850::int)"
    by (rule round_half_even_le) (use assms in simp)
  ultimately have "(500::real) \<le> of_int (round_half_even (x * 10))"
      and "of_int (round_half_even (x * 10)) \<le> (850::real)"
    by simp_all
  then show ?thesis
    unfolding py_round1_def by simp
qed

lemma py_round1_0: "py_round1 0 = 0"
  using round_half_even_of_int [of 0] by (simp add: py_round1_def)

lemma py_round1_50: "py_round1 50 = 50"
proof -
  have "round_half_even (of_int 500) = 500" by (rule round_half_even_of_int)
  then show ?thesis by (simp add: py_round1_def)
qed

lemma spread_confidence_range: "50 \<le> spread_confidence s \<and> spread_confidence s \<le> 85"
  by (simp add: spread_confidence_def Let_def)

subsection \<open>Soundness of the binary64 rounding\<close>

text \<open>
  \<open>binade x\<close> is the binary exponent of \<open>x\<close>, and \<open>fl64 x\<close> is within half a unit in the
  last place of \<open>x\<close>, the unit being \<open>2 ^ (binade x - 52)\<close>.
\<close>

lemma pow2_pos: "0 < pow2 e"
  by (simp add: pow2_def)

lemma round_half_even_error: "\<bar>of_int (round_half_even y) - y\<bar> \<le> 1 / 2"
proof -
  have "of_int \<lfloor>y\<rfloor> \<le> y" "y < of_int \<lfloor>y\<rfloor> + 1" by linarith+
  then show ?thesis by (auto simp add: round_half_even_def Let_def)
qed

lemma fl64_error: "\<bar>fl64 x - x\<bar> \<le> pow2 (binade x - 52) / 2"
proof (cases "x = 0")
  case True
  then show ?thesis using pow2_pos [of "binade x - 52"] by (simp add: fl64_def)
next
  case False
  define u where "u = pow2 (binade x - 52)"
  have u: "0 < u" by (simp add: u_def pow2_pos)
  have "fl64 x - x = (of_int (round_half_even (x / u)) - x / u) * u"
    using False u by (simp add: fl64_def u_def [symmetric] Let_def field_simps)
  then have "\<bar>fl64 x - x\<bar> = \<bar>of_int (round_half_even (x / u)) - x / u\<bar> * u"
    using u by (simp add: abs_mult)
  also have "\<dots> \<le> (1 / 2) * u"
    using round_half_even_error [of "x / u"] u by (intro mult_right_mono) simp_all
  finally show ?thesis by (simp add: u_def)
qed

lemma pow2_nat: "pow2 (int n) = 2 ^ n"
  by (simp add: pow2_def)

lemma pow2_neg: "pow2 (- int n) = 1 / 2 ^ n"
  by (cases n) (simp_all add: pow2_def nat_add_distrib)

lemma floorlog_real_bounds:
  assumes "1 \<le> (y::real)"
  defines "l \<equiv> floorlog 2 (nat \<lfloor>y\<rfloor>) - 1"
  shows "floorlog 2 (nat \<lfloor>y\<rfloor>) = Suc l" and "2 ^ l \<le> y" and "y < 2 ^ Suc l"
proof -
  define n where "n = nat \<lfloor>y\<rfloor>"
  have n: "0 < n" using assms(1) by (simp add: n_def)
  have ny1: "real n \<le> y" using assms(1) by (simp add: n_def)
  have ny2: "y < real n + 1" using assms(1) by (simp add: n_def)
  have fl: "floorlog 2 n = Suc l" using n by (simp add: floorlog_def l_def n_def)
  then show "floorlog 2 (nat \<lfloor>y\<rfloor>) = Suc l" by (simp add: n_def)
  from floorlog_bounds [of n 2] n
  have lo: "2 ^ l \<le> n" and hi: "n < 2 ^ Suc l" by (simp_all add: fl)
  from lo have "real (2 ^ l) \<le> real n" by (simp only: of_nat_le_iff)
  then have lo': "(2::real) ^ l \<le> real n" by simp
  from hi have "n + 1 \<le> 2 ^ Suc l" by simp
  then have "real (n + 1) \<le> real (2 ^ Suc l)" by (simp only: of_nat_le_iff)
  then have hi': "real n + 1 \<le> 2 ^ Suc l" by simp
  show "2 ^ l \<le> y" using lo' ny1 by linarith
  show "y < 2 ^ Suc l" using hi' ny2 by linarith
qed

lemma binade_bounds:
  assumes "x \<noteq> 0"
  shows "pow2 (binade x) \<le> \<bar>x\<bar> \<and> \<bar>x\<bar> < pow2 (binade x + 1)"
proof (cases "1 \<le> \<bar>x\<bar>")
  case True
  define l where "l = floorlog 2 (nat \<lfloor>\<bar>x\<bar>\<rfloor>) - 1"
  from floorlog_real_bounds [OF True]
  have fl: "floorlog 2 (nat \<lfloor>\<bar>x\<bar>\<rfloor>) = Suc l" and lo: "2 ^ l \<le> \<bar>x\<bar>" and hi: "\<bar>x\<bar> < 2 ^ Suc l"
    by (simp_all add: l_def)
  have b: "binade x = int l" using True by (simp add: binade_def fl)
  have b1: "binade x + 1 = int (Suc l)" by (simp add: b)
  show ?thesis unfolding b1 unfolding b pow2_nat using lo hi by simp
next
  case False
  then have lt: "\<bar>x\<bar> < 1" by simp
  have pos: "0 < \<bar>x\<bar>" using assms by simp
  define y where "y = 1 / \<bar>x\<bar>"
  have y1: "1 \<le> y" using lt pos by (simp add: y_def)
  have ypos: "0 < y" using y1 by linarith
  define l where "l = floorlog 2 (nat \<lfloor>y\<rfloor>) - 1"
  from floorlog_real_bounds [OF y1]
  have fl: "floorlog 2 (nat \<lfloor>y\<rfloor>) = Suc l" and lo: "2 ^ l \<le> y" and hi: "y < 2 ^ Suc l"
    by (simp_all add: l_def)
  have xy: "\<bar>x\<bar> = 1 / y" using pos by (simp add: y_def)
  have bd: "binade x = (if \<bar>x\<bar> * 2 ^ l = 1 then - int l else - int l - 1)"
    using False by (simp add: binade_def Let_def y_def [symmetric] fl)
  show ?thesis
  proof (cases "\<bar>x\<bar> * 2 ^ l = 1")
    case True
    then have b: "binade x = - int l" by (simp add: bd)
    from True have x: "\<bar>x\<bar> = 1 / 2 ^ l" by (simp add: field_simps)
    have "l \<noteq> 0" using x lt by (cases l) auto
    then obtain k where k: "l = Suc k" by (cases l) auto
    have b1: "binade x + 1 = - int k" by (simp add: b k)
    have "(1::real) / 2 ^ l < 1 / 2 ^ k" by (simp add: k field_simps)
    then show ?thesis unfolding b1 unfolding b pow2_neg using x by simp
  next
    case F: False
    then have b: "binade x = - int (Suc l)" by (simp add: bd)
    have b1: "binade x + 1 = - int l" by (simp add: b)
    have "y \<noteq> 2 ^ l" using F xy ypos by (auto simp: field_simps)
    with lo have "2 ^ l < y" by simp
    then have "1 / y < 1 / 2 ^ l" using ypos by (simp add: field_simps)
    then have u: "\<bar>x\<bar> < 1 / 2 ^ l" using xy by simp
    have "1 / 2 ^ Suc l < 1 / y" using hi ypos by (simp add: field_simps)
    then have "1 / 2 ^ Suc l \<le> \<bar>x\<bar>" using xy by simp
    then show ?thesis unfolding b1 unfolding b pow2_neg using u by simp
  qed
qed

subsection \<open>The combination step\<close>

lemma weighted_totals_zero:
  "\<forall>f \<in> set fs. confidence f = 0 \<Longrightarrow> weighted_totals fs acc = acc"
proof (induction fs arbitrary: acc)
  case Nil
  then show ?case by simp
next
  case (Cons f fs)
  obtain a b where acc: "acc = (a, b)" by (cases acc)
  from Cons.prems have "confidence f = 0" and rest: "\<forall>g \<in> set fs. confidence g = 0" by simp_all
  then show ?case using Cons.IH [OF rest] by (simp add: acc)
qed

lemma final_prediction_result:
  assumes "calculate_final_prediction fs home away = Inr r"
  shows "(py_getitem home ''name'' = Inr (winner r) \<or> py_getitem away ''name'' = Inr (winner r))
       \<and> 50 \<le> fp_confidence r \<and> fp_confidence r \<le> 85
       \<and> (\<exists>k. fp_confidence r = of_int k / 10) \<and> (\<exists>k. spread r = of_int k / 10)"
proof -
  obtain tv tw where t: "weighted_totals fs (0, 0) = (tv, tw)"
    by (cases "weighted_totals fs (0, 0)")
  define s where "s = (if 0 < tw then tv / tw else 0)"
  from assms t
  have "ebind (if 0 < s then py_getitem home ''name'' else py_getitem away ''name'')
          (\<lambda>w. Inr \<lparr>winner = w, fp_confidence = py_round1 (spread_confidence s),
                     spread = py_round1 s, total = None\<rparr>) = Inr r"
    by (simp add: calculate_final_prediction_def s_def Let_def)
  then obtain w
    where w: "(if 0 < s then py_getitem home ''name'' else py_getitem away ''name'') = Inr w"
      and r: "r = \<lparr>winner = w, fp_confidence = py_round1 (spread_confidence s),
                   spread = py_round1 s, total = None\<rparr>"
    by (auto simp: ebind_Inr_iff)
  have "50 \<le> py_round1 (spread_confidence s) \<and> py_round1 (spread_confidence s) \<le> 85"
    using spread_confidence_range [of s] by (intro py_round1_range) simp_all
  moreover have "\<exists>k. py_round1 y = of_int k / 10" for y
    unfolding py_round1_def by blast
  ultimately show ?thesis using w r by (auto split: if_splits)
qed

lemma predict_single_game_result:
  assumes "predict_single_game eng db now game = Inr (Some p)"
  shows "\<exists>home away r fs.
           py_getitem game ''home_team'' = Inr home \<and> py_getitem game ''away_team'' = Inr away
         \<and> calculate_final_prediction fs home away = Inr r
         \<and> py_getitem home ''name'' = Inr (home_team p)
         \<and> py_getitem away ''name'' = Inr (away_team p)
         \<and> predicted_winner p = winner r \<and> p_confidence p = fp_confidence r
         \<and> spread_prediction p = spread r
         \<and> factors p = fs \<and> length fs = 7 \<and> created_at p = now"
  using assms unfolding predict_single_game_def
  by (auto simp: ebind_Inr_iff Let_def split: if_splits)

subsection \<open>The clock\<close>

text \<open>The time of a prediction only fills the field \<open>created_at\<close>.\<close>

lemma predict_single_game_clock:
  "predict_single_game eng db t game =
     map_sum id (map_option (\<lambda>p. p\<lparr>created_at := t\<rparr>)) (predict_single_game eng db t' game)"
  unfolding predict_single_game_def
  by (simp add: ebind_def Let_def split: sum.splits)

lemma predict_historical_game_clock:
  "predict_historical_game bt db t game =
     map_option (\<lambda>p. p\<lparr>created_at := t\<rparr>) (predict_historical_game bt db t' game)"
proof (cases "loads_weather (weather_data game)")
  case (Inl e)
  then show ?thesis by (simp add: predict_historical_game_def)
next
  case (Inr w)
  show ?thesis
    using predict_single_game_clock [of "prediction_engine bt" db t "game_data_of game w" t']
    by (cases "predict_single_game (prediction_engine bt) db t' (game_data_of game w)")
       (simp_all add: predict_historical_game_def Inr)
qed

lemma backtest_loop_clock:
  "fst (backtest_loop bt db gs st t) = fst (backtest_loop bt db gs st t')"
proof (induction gs arbitrary: st t t')
  case Nil
  then show ?case by simp
next
  case (Cons g gs)
  obtain results tc bs where st: "st = (results, tc, bs)" by (cases st)
  show ?case
  proof (cases "is_game_completed g")
    case (Inl e)
    then show ?thesis by (simp add: st)
  next
    case (Inr c)
    show ?thesis
    proof (cases c)
      case False
      with Inr show ?thesis using Cons.IH by (simp add: st)
    next
      case True
      show ?thesis
      proof (cases "predict_historical_game bt db t' g")
        case None
        then have "predict_historical_game bt db t g = None"
          using predict_historical_game_clock [of bt db t g t'] by simp
        with None Inr True show ?thesis
          using Cons.IH [of _ "Suc t" "Suc t'"] by (simp add: st)
      next
        case (Some p)
        then have p: "predict_historical_game bt db t g = Some (p\<lparr>created_at := t\<rparr>)"
          using predict_historical_game_clock [of bt db t g t'] by simp
        show ?thesis
        proof (cases "get_actual_winner g")
          case (Inl e)
          with Some p Inr True show ?thesis by (simp add: st)
        next
          case w: (Inr w)
          with Some p Inr True show ?thesis
            using Cons.IH [of _ "Suc t" "Suc t'"] by (simp add: st Let_def)
        qed
      qed
    qed
  qed
qed

lemma run_backtest_clock:
  "fst (run_backtest bt db sd ed t) = fst (run_backtest bt db sd ed t')"
proof -
  let ?init = "(\<lparr>total_games = length (get_historical_games db sd ed), completed_games = 0,
                 correct_predictions = 0, accuracy = 0, avg_confidence = 0,
                 predictions = [], performance_by_confidence = [],
                 factor_analysis = []\<rparr>, 0, empty_buckets)"
  have "fst (backtest_loop bt db (get_historical_games db sd ed) ?init t)
      = fst (backtest_loop bt db (get_historical_games db sd ed) ?init t')"
    by (rule backtest_loop_clock)
  then show ?thesis
    unfolding run_backtest_def Let_def
    by (cases "backtest_loop bt db (get_historical_games db sd ed) ?init t";
        cases "backtest_loop bt db (get_historical_games db sd ed) ?init t'")
       (auto split: sum.splits)
qed

subsection \<open>Totality of the calculators and of a prediction\<close>

lemma calculators_total:
  "\<exists>f. calculate_team_strength_factor eng home away = Inr f"
  "\<exists>f. calculate_head_to_head_factor eng db hid aid = Inr f"
  "\<exists>f. calculate_rest_factor eng game = Inr f"
  "\<exists>f. calculate_weather_factor eng game = Inr f"
  "\<exists>f. calculate_motivation_factor eng game = Inr f"
  "\<exists>f. calculate_injury_factor eng hid aid = Inr f"
  by (simp_all add: calculate_team_strength_factor_def calculate_head_to_head_factor_def
      calculate_rest_factor_def calculate_weather_factor_def calculate_motivation_factor_def
      calculate_injury_factor_def try_except_def split: sum.splits)

lemma final_prediction_total:
  assumes "py_getitem home ''name'' = Inr hn" "py_getitem away ''name'' = Inr an"
  shows "\<exists>r. calculate_final_prediction fs home away = Inr r"
proof -
  obtain tv tw where t: "weighted_totals fs (0, 0) = (tv, tw)"
    by (cases "weighted_totals fs (0, 0)")
  show ?thesis
    by (simp add: calculate_final_prediction_def t Let_def assms)
qed

text \<open>
  A scheduled matchup whose teams carry an id and a name gets a prediction, whenever the
  weight table knows the home advantage.
\<close>

lemma predict_single_game_returns:
  assumes "py_get game ''status'' PNone = Inr (PStr ''STATUS_SCHEDULED'')"
    and "py_getitem game ''home_team'' = Inr home" "py_getitem game ''away_team'' = Inr away"
    and "py_getitem home ''id'' = Inr home_id" "py_getitem away ''id'' = Inr away_id"
    and "py_getitem home ''name'' = Inr home_name" "py_getitem away ''name'' = Inr away_name"
    and "py_getitem game ''espn_id'' = Inr gid"
    and "weight_of eng ''home_advantage'' = Inr w"
  shows "\<exists>p. predict_single_game eng db now game = Inr (Some p)"
proof -
  obtain f1 where f1: "calculate_team_strength_factor eng home away = Inr f1"
    using calculators_total(1) by blast
  obtain f2 where f2: "calculate_head_to_head_factor eng db home_id away_id = Inr f2"
    using calculators_total(2) by blast
  obtain f3 where f3: "calculate_home_advantage_factor eng home_id = Inr f3"
    using assms(9)
    by (cases "home_advantage_body eng home_id") (auto simp: calculate_home_advantage_factor_def)
  obtain f4 where f4: "calculate_rest_factor eng game = Inr f4"
    using calculators_total(3) by blast
  obtain f5 where f5: "calculate_weather_factor eng game = Inr f5"
    using calculators_total(4) by blast
  obtain f6 where f6: "calculate_motivation_factor eng game = Inr f6"
    using calculators_total(5) by blast
  obtain f7 where f7: "calculate_injury_factor eng home_id away_id = Inr f7"
    using calculators_total(6) by blast
  obtain r where r: "calculate_final_prediction [f1, f2, f3, f4, f5, f6, f7] home away = Inr r"
    using final_prediction_total [OF assms(6,7)] by blast
  show ?thesis
    by (simp add: predict_single_game_def Let_def assms f1 f2 f3 f4 f5 f6 f7 r)
qed

section \<open>Evaluation at the concrete inputs\<close>

lemmas eval_defs =
  predict_historical_game_def predict_single_game_def game_data_of_def
  calculate_team_strength_factor_def team_strength_body_def games_played_def win_pct_def
  zero_record_def
  calculate_head_to_head_factor_def head_to_head_body_def get_historical_matchups_def
  get_games_def is_matchup_def last5_def
  calculate_home_advantage_factor_def home_advantage_body_def NFL_STADIUMS_def
  calculate_rest_factor_def rest_body_def calculate_weather_factor_def weather_body_def
  calculate_motivation_factor_def motivation_body_def calculate_injury_factor_def injury_body_def
  calculate_final_prediction_def spread_confidence_def py_round1_def round_half_even_def
  weight_of_def Let_def

lemmas backtest_defs =
  get_historical_games_def get_games_def is_game_completed_def get_actual_winner_def

lemma upcoming_predicted:
  "predict_single_game AdvancedPredictionEngine [] 7 upcoming_game = Inr (Some upcoming_prediction)"
  by (simp add: eval_defs upcoming_game_def bills_def dolphins_def upcoming_prediction_def
      AdvancedPredictionEngine_def default_weights_def)

subsection \<open>The rainy home win\<close>

lemma snow_default:
  "map_option predicted_winner (predict_historical_game Backtester [snow_game] t snow_game)
     = Some (PStr ''Miami Dolphins'')"
  by (simp add: eval_defs Backtester_def AdvancedPredictionEngine_def default_weights_def
      snow_game_def)

lemma snow_heavy:
  "map_option predicted_winner
     (predict_historical_game \<lparr>prediction_engine = create_test_engine heavy_team_strength\<rparr>
        [snow_game] t snow_game)
     = Some (PStr ''Buffalo Bills'')"
  by (simp add: eval_defs create_test_engine_def heavy_team_strength_def
      generate_weight_combinations_def AdvancedPredictionEngine_def default_weights_def
      snow_game_def)

lemma snow_facts:
  "get_historical_games [snow_game] None None = [snow_game]"
  "is_game_completed snow_game = Inr True"
  "get_actual_winner snow_game = Inr (PStr ''Buffalo Bills'')"
  by (simp_all add: backtest_defs snow_game_def)

lemma test_backtest_snow:
  "run_test_backtest AlgorithmOptimizer [snow_game] e t =
     (\<lparr>t_accuracy = 0, t_completed_games = 1, t_correct_predictions = Some 0\<rparr>, Suc t)"
proof -
  obtain p where "predict_historical_game Backtester [snow_game] t snow_game = Some p"
    and "predicted_winner p = PStr ''Miami Dolphins''"
    using snow_default [of t] by auto
  then show ?thesis
    by (simp add: run_test_backtest_def snow_facts AlgorithmOptimizer_def)
qed

lemma test_backtest_snow_heavy:
  "run_test_backtest
     (AlgorithmOptimizer\<lparr>backtester :=
        \<lparr>prediction_engine = create_test_engine heavy_team_strength\<rparr>\<rparr>) [snow_game] e t =
     (\<lparr>t_accuracy = 1, t_completed_games = 1, t_correct_predictions = Some 1\<rparr>, Suc t)"
proof -
  obtain p
    where "predict_historical_game \<lparr>prediction_engine = create_test_engine heavy_team_strength\<rparr>
             [snow_game] t snow_game = Some p"
      and "predicted_winner p = PStr ''Buffalo Bills''"
    using snow_heavy [of t] by auto
  then show ?thesis
    by (simp add: run_test_backtest_def snow_facts AlgorithmOptimizer_def)
qed

subsection \<open>The away win\<close>

lemma away_win_default:
  "map_option predicted_winner
     (predict_historical_game Backtester [away_win_game] t away_win_game)
     = Some (PStr ''San Francisco 49ers'')"
  by (simp add: eval_defs Backtester_def AdvancedPredictionEngine_def default_weights_def
      away_win_game_def)

lemma away_win_facts:
  "get_historical_games [away_win_game] None None = [away_win_game]"
  "is_game_completed away_win_game = Inr True"
  "get_actual_winner away_win_game = Inr (PStr ''Seattle Seahawks'')"
  by (simp_all add: backtest_defs away_win_game_def)

lemma test_backtest_away_win:
  "run_test_backtest AlgorithmOptimizer [away_win_game] e t =
     (\<lparr>t_accuracy = 0, t_completed_games = 1, t_correct_predictions = Some 0\<rparr>, Suc t)"
proof -
  obtain p where "predict_historical_game Backtester [away_win_game] t away_win_game = Some p"
    and "predicted_winner p = PStr ''San Francisco 49ers''"
    using away_win_default [of t] by auto
  then show ?thesis
    by (simp add: run_test_backtest_def away_win_facts AlgorithmOptimizer_def)
qed

subsection \<open>The table of 51 games\<close>

lemma season_length: "length season = 51"
  by (simp add: season_def)

lemma season_games: "get_games season 100 = Inr season" "get_games season 500 = Inr season"
  by (simp_all add: get_games_def season_def list_ex_iff season_game_def)

lemma season_matchups: "get_historical_matchups season (PStr ''2'') (PStr ''15'') = season"
  by (simp add: get_historical_matchups_def season_games)
     (simp add: season_def is_matchup_def season_game_def)

lemma upt_46_51: "[46..<51] = [46, 47, 48, 49, 50]"
  by (simp add: upt_rec)

lemma season_last5: "last5 season = map season_game [46, 47, 48, 49, 50]"
  by (simp add: last5_def season_def drop_map upt_46_51 del: upt.simps)

lemma season_h2h:
  "head_to_head_loop (PStr ''2'') (map season_game [46, 47, 48, 49, 50]) (0, 0) = Inr (4, 21)"
  by (simp add: season_game_def)

lemma season_head_to_head:
  "calculate_head_to_head_factor AdvancedPredictionEngine season (PStr ''2'') (PStr ''15'') =
     Inr \<lparr>name = ''Head-to-Head'', val = 21 / 5, weight = 20 / 100, confidence = 8 / 10,
          explanation = HeadToHeadText 5 (21 / 5)\<rparr>"
  by (simp add: calculate_head_to_head_factor_def head_to_head_body_def season_matchups
      season_length season_last5 season_h2h weight_of_def AdvancedPredictionEngine_def
      default_weights_def Let_def
      del: list.map)

lemmas calc_defs =
  predict_single_game_def
  calculate_team_strength_factor_def team_strength_body_def games_played_def win_pct_def
  zero_record_def
  calculate_home_advantage_factor_def home_advantage_body_def NFL_STADIUMS_def
  calculate_rest_factor_def rest_body_def calculate_weather_factor_def weather_body_def
  calculate_motivation_factor_def motivation_body_def calculate_injury_factor_def injury_body_def
  calculate_final_prediction_def weight_of_def Let_def

lemma season_single:
  "\<exists>p. predict_single_game AdvancedPredictionEngine season t
          (PDict [(''espn_id'', e), (''status'', PStr ''STATUS_SCHEDULED''),
                  (''home_team'', PDict [(''id'', PStr ''2''), (''name'', PStr ''Buffalo Bills''),
                                         (''record'', zero_record)]),
                  (''away_team'', PDict [(''id'', PStr ''15''), (''name'', PStr ''Miami Dolphins''),
                                         (''record'', zero_record)]),
                  (''weather'', PDict [])]) = Inr (Some p)
       \<and> predicted_winner p = PStr ''Buffalo Bills''"
  by (simp add: calc_defs season_head_to_head)
     (simp add: AdvancedPredictionEngine_def default_weights_def)

lemma season_prediction:
  "\<exists>p. predict_historical_game Backtester season t (season_game i) = Some p
       \<and> predicted_winner p = PStr ''Buffalo Bills''"
proof -
  have "game_data_of (season_game i) (PDict []) =
          PDict [(''espn_id'', PStr (''hist_'' @ replicate i (CHR ''x''))),
                 (''status'', PStr ''STATUS_SCHEDULED''),
                 (''home_team'', PDict [(''id'', PStr ''2''), (''name'', PStr ''Buffalo Bills''),
                                        (''record'', zero_record)]),
                 (''away_team'', PDict [(''id'', PStr ''15''), (''name'', PStr ''Miami Dolphins''),
                                        (''record'', zero_record)]),
                 (''weather'', PDict [])]"
    by (simp add: game_data_of_def season_game_def)
  moreover have "weather_data (season_game i) = NoText"
    by (simp add: season_game_def)
  ultimately show ?thesis
    using season_single [of t "PStr (''hist_'' @ replicate i (CHR ''x''))"]
    by (auto simp: predict_historical_game_def Backtester_def)
qed

lemma season_completed: "is_game_completed (season_game i) = Inr True"
  by (simp add: is_game_completed_def season_game_def)

lemma season_winner:
  "get_actual_winner (season_game i) =
     Inr (if i < 50 then PStr ''Buffalo Bills'' else PStr ''Miami Dolphins'')"
  by (simp add: get_actual_winner_def season_game_def)

lemma completed_only_season: "completed_only (map season_game is) = Inr (map season_game is)"
  by (induction "is") (simp_all add: season_completed)

lemma season_historical: "get_historical_games season sd ed = season"
  by (simp add: get_historical_games_def season_games) (simp add: season_def completed_only_season)

lemma test_loop_season:
  "test_loop Backtester season (map season_game is) (c, n) t =
     (Inr (c + length (filter (\<lambda>i. i < 50) is), n + length is), t + length is)"
proof (induction "is" arbitrary: c n t)
  case Nil
  then show ?case by simp
next
  case (Cons i "is")
  obtain p where "predict_historical_game Backtester season t (season_game i) = Some p"
    and "predicted_winner p = PStr ''Buffalo Bills''"
    using season_prediction [of t i] by blast
  then show ?case
    by (simp add: season_completed season_winner Cons.IH)
qed

lemma take_50_season: "take 50 season = map season_game [0..<50]"
  by (simp add: season_def take_map del: upt.simps)

lemma filter_lt_50:
  "filter (\<lambda>i. i < 50) [0..<50] = [0..<50]" "filter (\<lambda>i. i < 50) [0..<51] = [0..<50]"
proof -
  show *: "filter (\<lambda>i. i < 50) [0..<50] = [0..<50]" by (rule filter_True) simp
  have "(51::nat) = Suc 50" by simp
  then have "[0..<51] = [0..<50] @ [50]" by (metis upt_Suc_append le0)
  then show "filter (\<lambda>i. i < 50) [0..<51] = [0..<50]"
    using * by (simp only: filter_append filter.simps) simp
qed

lemma test_backtest_season:
  "run_test_backtest zero_injury_optimizer season e t =
     (\<lparr>t_accuracy = 1, t_completed_games = 50, t_correct_predictions = Some 50\<rparr>, t + 50)"
proof -
  have "map season_game [0..<50] \<noteq> []" by (simp add: upt_rec [of 0])
  then show ?thesis
    by (simp add: run_test_backtest_def season_historical take_50_season zero_injury_optimizer_def
        AlgorithmOptimizer_def test_loop_season filter_lt_50 del: upt.simps)
qed

lemma backtest_loop_season:
  "\<exists>r tc' bs'. backtest_loop Backtester season (map season_game is) (results, tc, bs) t
                  = (Inr (r, tc', bs'), t + length is)
     \<and> completed_games r = completed_games results + length is
     \<and> correct_predictions r = correct_predictions results + length (filter (\<lambda>i. i < 50) is)"
proof (induction "is" arbitrary: results tc bs t)
  case Nil
  then show ?case by simp
next
  case (Cons i "is")
  obtain p where p: "predict_historical_game Backtester season t (season_game i) = Some p"
    and w: "predicted_winner p = PStr ''Buffalo Bills''"
    using season_prediction [of t i] by blast
  show ?case
  proof (cases "i < 50")
    case True
    let ?results =
      "results\<lparr>completed_games := completed_games results + 1,
               correct_predictions := correct_predictions results + 1,
               predictions := predictions results @
                 [\<lparr>d_game_id = espn_id (season_game i),
                   d_matchup = (away_team_name (season_game i), home_team_name (season_game i)),
                   d_predicted_winner = PStr ''Buffalo Bills'',
                   d_actual_winner = PStr ''Buffalo Bills'',
                   d_confidence = p_confidence p, d_correct = True,
                   d_factors = map (\<lambda>f. (name f, val f, weight f)) (factors p)\<rparr>]\<rparr>"
    from Cons.IH [of ?results "tc + p_confidence p"
        "count_in_bucket (get_confidence_bucket (p_confidence p)) True bs" "Suc t"] True
    show ?thesis
      by (simp add: season_completed season_winner p w Let_def)
  next
    case False
    let ?results =
      "results\<lparr>completed_games := completed_games results + 1,
               correct_predictions := correct_predictions results,
               predictions := predictions results @
                 [\<lparr>d_game_id = espn_id (season_game i),
                   d_matchup = (away_team_name (season_game i), home_team_name (season_game i)),
                   d_predicted_winner = PStr ''Buffalo Bills'',
                   d_actual_winner = PStr ''Miami Dolphins'',
                   d_confidence = p_confidence p, d_correct = False,
                   d_factors = map (\<lambda>f. (name f, val f, weight f)) (factors p)\<rparr>]\<rparr>"
    from Cons.IH [of ?results "tc + p_confidence p"
        "count_in_bucket (get_confidence_bucket (p_confidence p)) False bs" "Suc t"] False
    show ?thesis
      by (simp add: season_completed season_winner p w Let_def)
  qed
qed

lemma baseline_season:
  "\<exists>r. run_backtest Backtester season None None t = (Inr (Report r), t + 51)
     \<and> accuracy r = 50 / 51 \<and> completed_games r = 51"
proof -
  let ?init = "\<lparr>total_games = length season, completed_games = 0,
                correct_predictions = 0, accuracy = 0, avg_confidence = 0,
                predictions = [], performance_by_confidence = [],
                factor_analysis = []\<rparr>"
  obtain r tc bs where
    loop: "backtest_loop Backtester season (map season_game [0..<51]) (?init, 0, empty_buckets) t
             = (Inr (r, tc, bs), t + length [0..<51])"
    and c: "completed_games r = completed_games ?init + length [0..<51]"
    and k: "correct_predictions r
              = correct_predictions ?init + length (filter (\<lambda>i. i < 50) [0..<51])"
    using backtest_loop_season [of "[0..<51]" ?init 0 empty_buckets t] by blast
  have ne: "season \<noteq> []" using season_length by auto
  from c have c': "completed_games r = 51" by simp
  from k have k': "correct_predictions r = 50" by (simp add: filter_lt_50 del: upt.simps)
  from loop have loop': "backtest_loop Backtester season season (?init, 0, empty_buckets) t
             = (Inr (r, tc, bs), t + 51)"
    by (simp add: season_def del: upt.simps)
  show ?thesis
    by (simp add: run_backtest_def season_historical ne loop' c' k' Let_def)
qed

subsection \<open>Binary64 figures of the betting simulation\<close>

lemmas fl64_defs = fl64_def binade_def pow2_def round_half_even_def compute_floorlog Let_def

lemma betting_loop_good:
  assumes "length ps = length qs"
    and "list_all (\<lambda>p. 60 \<le> d_confidence p \<and> d_correct p) ps"
    and "list_all (\<lambda>p. 60 \<le> d_confidence p \<and> d_correct p) qs"
  shows "betting_loop ps b acc = betting_loop qs b acc"
  using assms
proof (induction ps qs arbitrary: acc rule: list_induct2)
  case Nil
  then show ?case by simp
next
  case (Cons p ps q qs)
  obtain n w g where acc: "acc = (n, w, g)" by (cases acc)
  from Cons.prems
  have "\<not> d_confidence p < 60" "d_correct p" "\<not> d_confidence q < 60" "d_correct q"
    by simp_all
  moreover from Cons.prems have "betting_loop ps b acc' = betting_loop qs b acc'" for acc'
    by (intro Cons.IH) simp_all
  ultimately show ?case by (simp add: acc)
qed

text \<open>The payout of one winning bet of 100: the float \<open>90.91\<close>.\<close>

lemma fl64_one_win: "fl64 (100 * fl64 (9091 / 10000)) = 3198611266595717 / 35184372088832"
  by (simp add: fl64_defs)

lemma ten_bets_loop:
  "betting_loop (replicate 10 good_bet) 100 (0, 0, 0)
     = (10, 7996528166489291 / 8796093022208, 1000)"
  by (simp add: good_bet_def numeral_eq_Suc fl64_one_win) (simp add: fl64_defs)

lemma fl64_profit:
  "fl64 (7996528166489291 / 8796093022208 - 1000) = - (799564855718709 / 8796093022208)"
  by (simp add: fl64_defs)

lemma fl64_roi:
  "fl64 (fl64 (- (799564855718709 / 8796093022208) / 1000) * 100)
     = - (2558607538299869 / 281474976710656)"
  by (simp add: fl64_defs)

lemma fl64_break_even: "fl64 (5238 / 100) = 7371829640052081 / 140737488355328"
  by (simp add: fl64_defs)

text \<open>The floats that the literals \<open>909.1\<close> and \<open>-90.9\<close> denote.\<close>

lemma fl64_909_1: "fl64 (9091 / 10) = 7996528166489293 / 8796093022208"
  by (simp add: fl64_defs)

lemma fl64_90_9: "fl64 (- (909 / 10)) = - (3198259422874829 / 35184372088832)"
  by (simp add: fl64_defs)

lemma ten_good_bets:
  assumes "length (predictions_of report) = 10"
    and "\<forall>p \<in> set (predictions_of report). 60 \<le> d_confidence p \<and> d_correct p"
  shows "simulate_betting_performance report 100 =
           \<lparr>total_bets = 10, total_wagered = 1000,
            total_winnings = 7996528166489291 / 8796093022208,
            profit_loss = - (799564855718709 / 8796093022208),
            roi_percentage = - (2558607538299869 / 281474976710656),
            break_even_accuracy = 7371829640052081 / 140737488355328\<rparr>"
proof -
  have "betting_loop (predictions_of report) 100 (0, 0, 0)
          = betting_loop (replicate 10 good_bet) 100 (0, 0, 0)"
    using assms by (intro betting_loop_good) (simp_all add: list_all_iff good_bet_def)
  then have loop: "betting_loop (predictions_of report) 100 (0, 0, 0)
                     = (10, 7996528166489291 / 8796093022208, 1000)"
    by (simp only: ten_bets_loop)
  have pos: "(0::real) < 1000" by simp
  show ?thesis
    unfolding simulate_betting_performance_def loop
    by (simp only: Let_def prod.case fl64_profit fl64_roi fl64_break_even pos if_True)
qed

lemma ten_correct_bets_facts:
  "length (predictions_of ten_correct_bets) = 10"
  "\<forall>p \<in> set (predictions_of ten_correct_bets). 60 \<le> d_confidence p \<and> d_correct p"
  by (simp_all add: ten_correct_bets_def good_bet_def)

section \<open>The claims\<close>

subsection \<open>C1: the weight search scores every candidate with the same engine\<close>

text \<open>
  \<open>_run_test_backtest\<close> never reads its parameter \<open>engine\<close>: whatever the candidate, the
  predictions come from the engine of the backtester.
\<close>

lemma run_test_backtest_engine_irrelevant:
  "run_test_backtest opt db engine1 t = run_test_backtest opt db engine2 t"
  by (simp add: run_test_backtest_def)

text \<open>
  C1 (the accuracy recorded for a candidate is the accuracy of a backtest whose engine
  carries the candidate's weights) fails on the code. With the rainy home win as the only
  historical game, the weight search records accuracy 0 for the second candidate (heavy
  team strength), while a backtest whose engine carries that candidate's weights predicts
  the home team and scores accuracy 1.
\<close>

theorem weight_search_ignores_candidate:
  "o_all_tests (fst (optimize_factor_weights AlgorithmOptimizer [snow_game] 0)) ! 1 =
     \<lparr>l_weights = heavy_team_strength, l_accuracy = 0, l_total_games = 1\<rparr> \<and>
   t_accuracy (fst (run_test_backtest
      (AlgorithmOptimizer\<lparr>backtester :=
         \<lparr>prediction_engine = create_test_engine heavy_team_strength\<rparr>\<rparr>)
      [snow_game] (create_test_engine heavy_team_strength) 0)) = 1"
proof
  show "o_all_tests (fst (optimize_factor_weights AlgorithmOptimizer [snow_game] 0)) ! 1 =
     \<lparr>l_weights = heavy_team_strength, l_accuracy = 0, l_total_games = 1\<rparr>"
    by (simp add: optimize_factor_weights_def generate_weight_combinations_def test_backtest_snow
        heavy_team_strength_def Let_def)
  show "t_accuracy (fst (run_test_backtest
      (AlgorithmOptimizer\<lparr>backtester :=
         \<lparr>prediction_engine = create_test_engine heavy_team_strength\<rparr>\<rparr>)
      [snow_game] (create_test_engine heavy_team_strength) 0)) = 1"
    by (simp add: test_backtest_snow_heavy)
qed

subsection \<open>C2: the failure policy of the calculators\<close>

text \<open>
  C2 as stated (every calculator, the home-advantage calculator included, answers an
  internal error with a factor of value 0 and confidence 0) fails: with the default weights
  and an unhashable team id the body of the home-advantage calculator raises, and its
  handler answers with the standard advantage, value 2.5 and confidence 0.8.
\<close>

theorem home_advantage_fallback_counterexample:
  "home_advantage_body AdvancedPredictionEngine (PList []) = Inl TypeError \<and>
   calculate_home_advantage_factor AdvancedPredictionEngine (PList []) =
     Inr \<lparr>name = ''Home Advantage'', val = 25 / 10, weight = 15 / 100, confidence = 8 / 10,
          explanation = Text ''Standard advantage''\<rparr>"
  by (simp add: home_advantage_body_def calculate_home_advantage_factor_def weight_of_def
      AdvancedPredictionEngine_def default_weights_def)

text \<open>
  The handler of the home-advantage calculator looks the weight up again; with a weight
  table that lacks the key, as the one of the repository's own verification script, the
  calculator raises outward.
\<close>

lemma home_advantage_raises:
  "calculate_home_advantage_factor (create_test_engine [(''team_strength'', 1)]) (PStr ''2'')
     = Inl KeyError"
  by (simp add: home_advantage_body_def calculate_home_advantage_factor_def weight_of_def
      create_test_engine_def NFL_STADIUMS_def)

text \<open>
  C2, amended: the team-strength, head-to-head, rest, weather, motivation and injury
  calculators never raise outward, and when their body raises they return the factor of
  value 0, weight 0 and confidence 0 with their explanatory text. The home-advantage
  calculator, when the weight table knows \<open>home_advantage\<close>, never raises outward, and
  when its body raises it returns value 2.5 and confidence 0.8 with the configured weight
  and the text "Standard advantage".
\<close>

theorem calculator_failure_policy:
  "\<not> isl (calculate_team_strength_factor eng home away)
   \<and> (isl (team_strength_body eng home away) \<longrightarrow>
        calculate_team_strength_factor eng home away =
          Inr \<lparr>name = ''Team Strength'', val = 0, weight = 0, confidence = 0,
               explanation = Text ''Calculation error''\<rparr>)
   \<and> \<not> isl (calculate_head_to_head_factor eng db home_id away_id)
   \<and> (isl (head_to_head_body eng db home_id away_id) \<longrightarrow>
        calculate_head_to_head_factor eng db home_id away_id =
          Inr \<lparr>name = ''Head-to-Head'', val = 0, weight = 0, confidence = 0,
               explanation = Text ''Historical data unavailable''\<rparr>)
   \<and> \<not> isl (calculate_rest_factor eng game)
   \<and> (isl (rest_body eng game) \<longrightarrow>
        calculate_rest_factor eng game =
          Inr \<lparr>name = ''Rest Advantage'', val = 0, weight = 0, confidence = 0,
               explanation = Text ''Data unavailable''\<rparr>)
   \<and> \<not> isl (calculate_weather_factor eng game)
   \<and> (isl (weather_body eng game) \<longrightarrow>
        calculate_weather_factor eng game =
          Inr \<lparr>name = ''Weather'', val = 0, weight = 0, confidence = 0,
               explanation = Text ''Weather calculation error''\<rparr>)
   \<and> \<not> isl (calculate_motivation_factor eng game)
   \<and> (isl (motivation_body eng game) \<longrightarrow>
        calculate_motivation_factor eng game =
          Inr \<lparr>name = ''Motivation'', val = 0, weight = 0, confidence = 0,
               explanation = Text ''Motivation data unavailable''\<rparr>)
   \<and> \<not> isl (calculate_injury_factor eng home_id away_id)
   \<and> (isl (injury_body eng home_id away_id) \<longrightarrow>
        calculate_injury_factor eng home_id away_id =
          Inr \<lparr>name = ''Injuries'', val = 0, weight = 0, confidence = 0,
               explanation = Text ''Injury data unavailable''\<rparr>)
   \<and> (weight_of eng ''home_advantage'' = Inr w \<longrightarrow>
        \<not> isl (calculate_home_advantage_factor eng home_id)
        \<and> (isl (home_advantage_body eng home_id) \<longrightarrow>
             calculate_home_advantage_factor eng home_id =
               Inr \<lparr>name = ''Home Advantage'', val = 25 / 10, weight = w, confidence = 8 / 10,
                    explanation = Text ''Standard advantage''\<rparr>))"
proof -
  have "\<not> isl (try_except body (Inr f)) \<and> (isl body \<longrightarrow> try_except body (Inr f) = Inr f)"
    for body :: "error + PredictionFactor" and f
    by (cases body) simp_all
  then show ?thesis
    unfolding calculate_team_strength_factor_def calculate_head_to_head_factor_def
      calculate_rest_factor_def calculate_weather_factor_def calculate_motivation_factor_def
      calculate_injury_factor_def calculate_home_advantage_factor_def
    by (cases "home_advantage_body eng home_id") simp_all
qed

text \<open>
  Witness for C2 (amended): an engine whose weight table only knows the home advantage, so
  that the body of the team-strength calculator raises, and an unhashable home team id.
\<close>

theorem calculator_failure_policy_witness:
  "isl (team_strength_body home_advantage_only bills dolphins)
   \<and> calculate_team_strength_factor home_advantage_only bills dolphins =
       Inr \<lparr>name = ''Team Strength'', val = 0, weight = 0, confidence = 0,
            explanation = Text ''Calculation error''\<rparr>
   \<and> weight_of home_advantage_only ''home_advantage'' = Inr (15 / 100)
   \<and> isl (home_advantage_body home_advantage_only (PList []))
   \<and> calculate_home_advantage_factor home_advantage_only (PList []) =
       Inr \<lparr>name = ''Home Advantage'', val = 25 / 10, weight = 15 / 100, confidence = 8 / 10,
            explanation = Text ''Standard advantage''\<rparr>"
proof -
  have b: "isl (team_strength_body home_advantage_only bills dolphins)"
    by (simp add: team_strength_body_def games_played_def win_pct_def weight_of_def bills_def
        dolphins_def home_advantage_only_def create_test_engine_def)
  have w: "weight_of home_advantage_only ''home_advantage'' = Inr (15 / 100)"
    by (simp add: weight_of_def home_advantage_only_def create_test_engine_def)
  have h: "isl (home_advantage_body home_advantage_only (PList []))"
    by (simp add: home_advantage_body_def)
  show ?thesis
    using calculator_failure_policy [of home_advantage_only bills dolphins "[]" "PList []"
        "PStr ''15''" upcoming_game "15 / 100"] b w h
    by simp
qed

subsection \<open>C3: the ablation score of a factor of weight 0\<close>

text \<open>
  C3 (the ablation importance score of a factor whose baseline weight is 0 equals 0) fails
  on the code. With the table of 51 finished games and a baseline configuration that gives
  \<open>injuries\<close> the weight 0, the baseline accuracy is measured on all 51 games (50 / 51) and
  the ablated accuracy on the first 50 (1), so the score of \<open>injuries\<close> is \<open>- 100 / 51\<close>.
\<close>

theorem ablation_zero_weight_nonzero_score:
  "weight_of (base_engine zero_injury_optimizer) ''injuries'' = Inr 0 \<and>
   (case fst (analyze_factor_importance zero_injury_optimizer season 0) of
      Inr (Importance baseline analysis date) \<Rightarrow>
        map_of analysis ''injuries'' =
          Some \<lparr>i_baseline_accuracy = 50 / 51, i_without_factor_accuracy = 1,
                i_accuracy_drop = - (1 / 51), i_importance_score = - (100 / 51)\<rparr>
    | _ \<Rightarrow> False)"
proof
  show "weight_of (base_engine zero_injury_optimizer) ''injuries'' = Inr 0"
    by (simp add: weight_of_def zero_injury_optimizer_def create_test_engine_def)
  obtain r where r: "run_backtest Backtester season None None 0 = (Inr (Report r), 0 + 51)"
    and a: "accuracy r = 50 / 51" and c: "completed_games r = 51"
    using baseline_season [of 0] by blast
  have b: "backtester zero_injury_optimizer = Backtester"
    by (simp add: zero_injury_optimizer_def AlgorithmOptimizer_def)
  have w: "factor_weights (base_engine zero_injury_optimizer) =
       [(''team_strength'', 35 / 100), (''head_to_head'', 20 / 100), (''home_advantage'', 15 / 100),
        (''rest_advantage'', 10 / 100), (''weather_impact'', 15 / 100), (''motivation'', 5 / 100),
        (''injuries'', 0)]"
    by (simp add: zero_injury_optimizer_def create_test_engine_def)
  show "case fst (analyze_factor_importance zero_injury_optimizer season 0) of
      Inr (Importance baseline analysis date) \<Rightarrow>
        map_of analysis ''injuries'' =
          Some \<lparr>i_baseline_accuracy = 50 / 51, i_without_factor_accuracy = 1,
                i_accuracy_drop = - (1 / 51), i_importance_score = - (100 / 51)\<rparr>
    | _ \<Rightarrow> False"
    by (simp add: analyze_factor_importance_def b r a c w test_backtest_season Let_def)
qed

subsection \<open>C4: the best configuration of the weight search\<close>

text \<open>
  C4 (the earliest candidate of highest accuracy is returned, and a best configuration is
  always returned when a candidate was evaluated) fails on the code. With the away win as
  the only historical game, the three candidates are evaluated and tie at accuracy 0, and
  the search returns no best configuration: \<open>best_accuracy\<close> starts at 0 and only a
  strictly greater accuracy replaces it.
\<close>

theorem weight_search_returns_no_best:
  "o_best_weights (fst (optimize_factor_weights AlgorithmOptimizer [away_win_game] 0)) = None \<and>
   o_best_results (fst (optimize_factor_weights AlgorithmOptimizer [away_win_game] 0)) = None \<and>
   map l_accuracy (o_all_tests (fst (optimize_factor_weights AlgorithmOptimizer [away_win_game] 0)))
     = [0, 0, 0] \<and>
   map l_weights (o_all_tests (fst (optimize_factor_weights AlgorithmOptimizer [away_win_game] 0)))
     = generate_weight_combinations weight_options"
  by (simp add: optimize_factor_weights_def generate_weight_combinations_def
      test_backtest_away_win Let_def)

subsection \<open>C5: range of the confidence and the predicted winner\<close>

text \<open>
  C5: every prediction that the engine returns has a confidence between 50 and 85 and a
  predicted winner that is the name of the home team or the name of the away team of the
  matchup; it is the string "TIE" only if a team bears that name. (By
  \<open>predict_single_game_returns\<close> a prediction is returned for every scheduled matchup
  whose teams have an id and a name, when the weight table knows the home advantage.)
\<close>

theorem prediction_confidence_and_winner:
  assumes "predict_single_game eng db now game = Inr (Some p)"
  shows "50 \<le> p_confidence p \<and> p_confidence p \<le> 85
       \<and> (predicted_winner p = home_team p \<or> predicted_winner p = away_team p)
       \<and> ebind (py_getitem game ''home_team'') (\<lambda>home. py_getitem home ''name'')
           = Inr (home_team p)
       \<and> ebind (py_getitem game ''away_team'') (\<lambda>away. py_getitem away ''name'')
           = Inr (away_team p)
       \<and> (home_team p \<noteq> PStr ''TIE'' \<and> away_team p \<noteq> PStr ''TIE''
            \<longrightarrow> predicted_winner p \<noteq> PStr ''TIE'')"
proof -
  obtain home away r fs where
    h: "py_getitem game ''home_team'' = Inr home" and a: "py_getitem game ''away_team'' = Inr away"
    and r: "calculate_final_prediction fs home away = Inr r"
    and hn: "py_getitem home ''name'' = Inr (home_team p)"
    and an: "py_getitem away ''name'' = Inr (away_team p)"
    and w: "predicted_winner p = winner r" and c: "p_confidence p = fp_confidence r"
    using predict_single_game_result [OF assms] by blast
  have win: "predicted_winner p = home_team p \<or> predicted_winner p = away_team p"
    using final_prediction_result [OF r] hn an w by auto
  have rng: "50 \<le> p_confidence p \<and> p_confidence p \<le> 85"
    using final_prediction_result [OF r] c by simp
  show ?thesis
    using win rng by (auto simp: h a hn an)
qed

text \<open>Witness for C5: the upcoming game of the 10-0-0 team against the 0-10-0 team.\<close>

theorem prediction_confidence_and_winner_witness:
  "predict_single_game AdvancedPredictionEngine [] 7 upcoming_game = Inr (Some upcoming_prediction)
   \<and> 50 \<le> p_confidence upcoming_prediction \<and> p_confidence upcoming_prediction \<le> 85
   \<and> predicted_winner upcoming_prediction = home_team upcoming_prediction
   \<and> predicted_winner upcoming_prediction \<noteq> PStr ''TIE''"
  using prediction_confidence_and_winner [OF upcoming_predicted] upcoming_predicted
  by (simp add: upcoming_prediction_def)

subsection \<open>C6: seven factors of confidence 0\<close>

text \<open>
  C6: if every factor given to the combination step has confidence 0, the spread is
  exactly 0 and the winner is the away team (here: the name of the away team, which the
  step reads), with the confidence 50.
\<close>

theorem all_zero_confidence:
  assumes "\<forall>f \<in> set fs. confidence f = 0"
    and "py_getitem away ''name'' = Inr n"
  shows "calculate_final_prediction fs home away =
           Inr \<lparr>winner = n, fp_confidence = 50, spread = 0, total = None\<rparr>"
  using weighted_totals_zero [OF assms(1), of "(0, 0)"] assms(2)
  by (simp add: calculate_final_prediction_def spread_confidence_def py_round1_50 py_round1_0)

text \<open>Witness for C6: seven factors of confidence 0, one of them with a value and a weight.\<close>

theorem all_zero_confidence_witness:
  "list_all (\<lambda>f. confidence f = 0) failed_factors
   \<and> length failed_factors = 7
   \<and> py_getitem dolphins ''name'' = Inr (PStr ''Miami Dolphins'')
   \<and> calculate_final_prediction failed_factors bills dolphins =
       Inr \<lparr>winner = PStr ''Miami Dolphins'', fp_confidence = 50, spread = 0, total = None\<rparr>"
proof -
  have z: "\<forall>f \<in> set failed_factors. confidence f = 0"
    by (simp add: failed_factors_def)
  have n: "py_getitem dolphins ''name'' = Inr (PStr ''Miami Dolphins'')"
    by (simp add: dolphins_def)
  show ?thesis
    using all_zero_confidence [OF z n, of bills] z n by (simp add: failed_factors_def)
qed

subsection \<open>C7: the betting simulation on ten correct predictions\<close>

text \<open>
  C7 as stated (total winnings 909.1 and profit/loss -90.9) fails in the arithmetic of
  Python's floats: for ten correct predictions of confidence 65 and the stake 100, the
  total winnings are neither the float \<open>909.1\<close> nor the real number 909.1, and the
  profit/loss is neither the float \<open>-90.9\<close> nor the real number -90.9.
\<close>

theorem betting_exact_figures_counterexample:
  "total_winnings (simulate_betting_performance ten_correct_bets 100) \<noteq> fl64 (9091 / 10)
   \<and> total_winnings (simulate_betting_performance ten_correct_bets 100) \<noteq> 9091 / 10
   \<and> profit_loss (simulate_betting_performance ten_correct_bets 100) \<noteq> fl64 (- (909 / 10))
   \<and> profit_loss (simulate_betting_performance ten_correct_bets 100) \<noteq> - (909 / 10)"
  by (simp add: ten_good_bets [OF ten_correct_bets_facts] fl64_909_1 fl64_90_9)

text \<open>
  C7, amended: for a result with exactly 10 predictions, each of confidence at least 60
  and correct, and the stake 100, the simulation reports 10 bets and total_wagered = 1000
  exactly; total_winnings is the float 909.0999999999998 and profit_loss the float
  -90.9000000000002, each within \<open>10\<^sup>-\<^sup>1\<^sup>2\<close> of 909.1 and -90.9, the figures of exact
  arithmetic with the payout of stake times 0.9091 per winning bet.
\<close>

theorem betting_ten_correct:
  assumes "length (predictions_of report) = 10"
    and "\<forall>p \<in> set (predictions_of report). 60 \<le> d_confidence p \<and> d_correct p"
  shows "total_bets (simulate_betting_performance report 100) = 10
       \<and> total_wagered (simulate_betting_performance report 100) = 1000
       \<and> total_winnings (simulate_betting_performance report 100)
           = 7996528166489291 / 8796093022208
       \<and> profit_loss (simulate_betting_performance report 100)
           = - (799564855718709 / 8796093022208)
       \<and> \<bar>total_winnings (simulate_betting_performance report 100) - 9091 / 10\<bar> < 1 / 10 ^ 12
       \<and> \<bar>profit_loss (simulate_betting_performance report 100) - (- (909 / 10))\<bar> < 1 / 10 ^ 12"
  by (simp add: ten_good_bets [OF assms])

text \<open>Witness for C7 (amended): ten correct predictions of confidence 65.\<close>

theorem betting_ten_correct_witness:
  "length (predictions_of ten_correct_bets) = 10
   \<and> list_all (\<lambda>p. 60 \<le> d_confidence p \<and> d_correct p) (predictions_of ten_correct_bets)
   \<and> total_wagered (simulate_betting_performance ten_correct_bets 100) = 1000
   \<and> total_winnings (simulate_betting_performance ten_correct_bets 100)
       = 7996528166489291 / 8796093022208
   \<and> profit_loss (simulate_betting_performance ten_correct_bets 100)
       = - (799564855718709 / 8796093022208)"
  using betting_ten_correct [OF ten_correct_bets_facts] ten_correct_bets_facts
  by (simp add: list_all_iff)

subsection \<open>C8: team strength of 10-0-0 against 0-10-0\<close>

text \<open>
  C8: for a home record of 10 wins, 0 losses, 0 ties and an away record of 0 wins, 10
  losses, 0 ties the team-strength calculator returns the value 14 and the confidence 0.9
  (with the weight that the engine's table gives to \<open>team_strength\<close>).
\<close>

theorem team_strength_10_0:
  assumes "py_get home ''record'' zero_record = Inr hr"
    and "py_get away ''record'' zero_record = Inr ar"
    and "py_getitem hr ''wins'' = Inr (PNum 10)" "py_getitem hr ''losses'' = Inr (PNum 0)"
        "py_getitem hr ''ties'' = Inr (PNum 0)"
    and "py_getitem ar ''wins'' = Inr (PNum 0)" "py_getitem ar ''losses'' = Inr (PNum 10)"
        "py_getitem ar ''ties'' = Inr (PNum 0)"
    and "weight_of eng ''team_strength'' = Inr w"
  shows "calculate_team_strength_factor eng home away =
           Inr \<lparr>name = ''Team Strength'', val = 14, weight = w, confidence = 9 / 10,
                explanation = TeamStrengthText 1 (PNum 10) (PNum 0) 0 (PNum 0) (PNum 10)\<rparr>"
  using assms
  by (simp add: calculate_team_strength_factor_def team_strength_body_def games_played_def
      win_pct_def)

text \<open>Witness for C8: the two teams of the upcoming game and the default weights.\<close>

theorem team_strength_10_0_witness:
  "weight_of AdvancedPredictionEngine ''team_strength'' = Inr (35 / 100)
   \<and> calculate_team_strength_factor AdvancedPredictionEngine bills dolphins =
       Inr \<lparr>name = ''Team Strength'', val = 14, weight = 35 / 100, confidence = 9 / 10,
            explanation = TeamStrengthText 1 (PNum 10) (PNum 0) 0 (PNum 0) (PNum 10)\<rparr>"
proof -
  have w: "weight_of AdvancedPredictionEngine ''team_strength'' = Inr (35 / 100)"
    by (simp add: weight_of_def AdvancedPredictionEngine_def default_weights_def)
  have "calculate_team_strength_factor AdvancedPredictionEngine bills dolphins =
       Inr \<lparr>name = ''Team Strength'', val = 14, weight = 35 / 100, confidence = 9 / 10,
            explanation = TeamStrengthText 1 (PNum 10) (PNum 0) 0 (PNum 0) (PNum 10)\<rparr>"
    by (rule team_strength_10_0
          [where hr = "PDict [(''wins'', PNum 10), (''losses'', PNum 0), (''ties'', PNum 0)]"
             and ar = "PDict [(''wins'', PNum 0), (''losses'', PNum 10), (''ties'', PNum 0)]"])
       (simp_all add: bills_def dolphins_def w)
  with w show ?thesis by simp
qed

subsection \<open>C9: two backtest runs over an unchanged games table\<close>

text \<open>
  C9: a backtest run that starts when a first run over the same games table has finished
  returns the same result as the first run: the same error, or reports equal in every
  field (total_games, completed_games, correct_predictions, accuracy, avg_confidence, the
  bucket table, the factor table and the prediction details).
\<close>

theorem backtest_idempotent:
  "fst (run_backtest bt db sd ed (snd (run_backtest bt db sd ed t)))
     = fst (run_backtest bt db sd ed t)"
  by (rule run_backtest_clock)

text \<open>Witness for C9: two runs over the table that holds the rainy home win.\<close>

theorem backtest_idempotent_witness:
  "fst (run_backtest Backtester [snow_game] None None
          (snd (run_backtest Backtester [snow_game] None None 0)))
     = fst (run_backtest Backtester [snow_game] None None 0)"
  by (rule backtest_idempotent)

subsection \<open>C10: one decimal place\<close>

text \<open>
  C10: the confidence and the spread of every returned prediction are multiples of one
  tenth (ten times each is an integer).
\<close>

theorem prediction_one_decimal:
  assumes "predict_single_game eng db now game = Inr (Some p)"
  shows "p_confidence p * 10 \<in> \<int> \<and> spread_prediction p * 10 \<in> \<int>"
proof -
  obtain home away r fs where
    r: "calculate_final_prediction fs home away = Inr r"
    and c: "p_confidence p = fp_confidence r" and s: "spread_prediction p = spread r"
    using predict_single_game_result [OF assms] by blast
  from final_prediction_result [OF r] obtain k j where
    "fp_confidence r = of_int k / 10" "spread r = of_int j / 10" by blast
  with c s show ?thesis by simp
qed

text \<open>Witness for C10: the upcoming game, confidence 85 and spread 9.\<close>

theorem prediction_one_decimal_witness:
  "predict_single_game AdvancedPredictionEngine [] 7 upcoming_game = Inr (Some upcoming_prediction)
   \<and> p_confidence upcoming_prediction * 10 \<in> \<int> \<and> spread_prediction upcoming_prediction * 10 \<in> \<int>
   \<and> p_confidence upcoming_prediction = 85 \<and> spread_prediction upcoming_prediction = 9"
  using prediction_one_decimal [OF upcoming_predicted] upcoming_predicted
  by (simp add: upcoming_prediction_def)

end
